theory Spec2Isabelle
  imports Complex_Main
begin

section \<open>The matching engine\<close>

text \<open>
  The routes of \<^verbatim>\<open>src/backend/src/routes/match.ts\<close> import \<^verbatim>\<open>matchResumeToJD\<close> from
  \<^verbatim>\<open>../utils/matcher.ts\<close> and \<^verbatim>\<open>parseResume\<close> from \<^verbatim>\<open>../utils/resumeParser.ts\<close>.
  Neither file is among the sources, so every definition of this section follows the
  words of the specification (sections 3, 4.2, 4.5, 4.6 and 4.7). The static tables (stop
  words, skills taxonomy, technical-token pattern) and the two scoring weights are
  parameters: the specification names them and gives no values.
\<close>

subsection \<open>Classifier (spec 4.6)\<close>

text \<open>Modelled from the spec: the three outcomes of the classifier, "shortlisted",
  "low_priority" and "rejected" (matcher.ts is missing).\<close>

datatype match_status = Shortlisted | LowPriority | Rejected

text \<open>Modelled from the spec: the threshold for shortlisting, a named constant
  (matcher.ts is missing).\<close>

definition SHORTLIST_THRESHOLD :: int where
  "SHORTLIST_THRESHOLD = 80"

text \<open>Modelled from the spec: the threshold for low priority, a named constant
  (matcher.ts is missing).\<close>

definition LOW_PRIORITY_THRESHOLD :: int where
  "LOW_PRIORITY_THRESHOLD = 50"

text \<open>Modelled from the spec: \<^verbatim>\<open>classify(matchPercentage) -> status\<close> of section 4.6
  (matcher.ts is missing).\<close>

definition classify :: "int \<Rightarrow> match_status" where
  "classify matchPercentage =
     (if matchPercentage \<ge> SHORTLIST_THRESHOLD then Shortlisted
      else if matchPercentage \<ge> LOW_PRIORITY_THRESHOLD then LowPriority
      else Rejected)"

subsection \<open>Keyword extractor (spec 4.2)\<close>

text \<open>Modelled from the spec: the static configuration of the extractor, that is the
  stop-word list, the taxonomy (canonical skill name and its synonym variants) and the
  known technical patterns that keep a short or numeric token (the tables of the missing
  matcher.ts and resumeParser.ts).\<close>

record extractor_config =
  stopWords :: "string list"
  taxonomy :: "(string \<times> string list) list"
  technicalPattern :: "string \<Rightarrow> bool"

text \<open>Modelled from the spec: a digit, for the "pure numerics" of the tokenizer
  (the extractor's file is missing).\<close>

definition is_digit :: "char \<Rightarrow> bool" where
  "is_digit c = (let n = (of_char c :: nat) in 48 \<le> n \<and> n \<le> 57)"

text \<open>Modelled from the spec: an alphanumeric character, for "split on non-alphanumeric
  boundaries"; ASCII letters and digits (the extractor's file is missing).\<close>

definition is_alnum :: "char \<Rightarrow> bool" where
  "is_alnum c =
     (let n = (of_char c :: nat)
      in (48 \<le> n \<and> n \<le> 57) \<or> (65 \<le> n \<and> n \<le> 90) \<or> (97 \<le> n \<and> n \<le> 122))"

text \<open>Modelled from the spec: "lower-case", on ASCII letters (the extractor's file is
  missing).\<close>

definition to_lower :: "char \<Rightarrow> char" where
  "to_lower c =
     (let n = (of_char c :: nat)
      in if 65 \<le> n \<and> n \<le> 90 then char_of (n + 32) else c)"

text \<open>Modelled from the spec: "split on non-alphanumeric boundaries, lower-case"
  (the extractor's file is missing). \<open>cur\<close> is the token being read.\<close>

fun tokens_from :: "string \<Rightarrow> string \<Rightarrow> string list" where
  "tokens_from cur [] = (if cur = [] then [] else [cur])"
| "tokens_from cur (c # cs) =
     (if is_alnum c then tokens_from (cur @ [to_lower c]) cs
      else if cur = [] then tokens_from [] cs
      else cur # tokens_from [] cs)"

text \<open>Modelled from the spec: the tokens of a text, before any is dropped (the
  extractor's file is missing).\<close>

definition split_tokens :: "string \<Rightarrow> string list" where
  "split_tokens text = tokens_from [] text"

text \<open>Modelled from the spec: "drop tokens shorter than 2 characters and pure numerics
  unless they match a known technical pattern" (the extractor's file is missing).\<close>

definition keep_token :: "extractor_config \<Rightarrow> string \<Rightarrow> bool" where
  "keep_token cfg t =
     (if length t < 2 \<or> list_all is_digit t then technicalPattern cfg t else True)"

text \<open>Modelled from the spec: the tokenization of section 4.2 (the extractor's file is
  missing).\<close>

definition tokenize :: "extractor_config \<Rightarrow> string \<Rightarrow> string list" where
  "tokenize cfg text = filter (keep_token cfg) (split_tokens text)"

text \<open>Modelled from the spec: stop-word filtering against the static list; what is
  left are the significant tokens (the extractor's file is missing).\<close>

definition significant_tokens :: "extractor_config \<Rightarrow> string \<Rightarrow> string list" where
  "significant_tokens cfg text =
     filter (\<lambda>t. t \<notin> set (stopWords cfg)) (tokenize cfg text)"

text \<open>Modelled from the spec: the bigram windows of the token stream, two neighbours
  joined by a space (the extractor's file is missing).\<close>

fun bigrams :: "string list \<Rightarrow> string list" where
  "bigrams (a # b # rest) = (a @ '' '' @ b) # bigrams (b # rest)"
| "bigrams _ = []"

text \<open>Modelled from the spec: the trigram windows of the token stream (the extractor's
  file is missing).\<close>

fun trigrams :: "string list \<Rightarrow> string list" where
  "trigrams (a # b # c # rest) = (a @ '' '' @ b @ '' '' @ c) # trigrams (b # c # rest)"
| "trigrams _ = []"

text \<open>Modelled from the spec: "the token stream and bigram/trigram windows" (the
  extractor's file is missing).\<close>

definition windows :: "string list \<Rightarrow> string list" where
  "windows toks = toks @ bigrams toks @ trigrams toks"

text \<open>Modelled from the spec: a taxonomy entry matches when its canonical name or one
  of its synonym variants is among the windows (the extractor's file is missing).\<close>

definition skill_matches :: "string list \<Rightarrow> string \<times> string list \<Rightarrow> bool" where
  "skill_matches ws entry = list_ex (\<lambda>v. v \<in> set ws) (fst entry # snd entry)"

text \<open>Modelled from the spec: "run the token stream and bigram/trigram windows against a
  static skills taxonomy; any match adds the canonical name to skills, regardless of
  which synonym matched" (the extractor's file is missing). The skills are a set: each
  canonical name once.\<close>

definition extract_skills :: "extractor_config \<Rightarrow> string \<Rightarrow> string list" where
  "extract_skills cfg text =
     remdups (map fst (filter (skill_matches (windows (significant_tokens cfg text)))
                              (taxonomy cfg)))"

text \<open>Modelled from the spec: "the result is deduplicated": the first occurrence of
  every token, in the order of first occurrence (the extractor's file is missing).\<close>

definition dedup_first :: "string list \<Rightarrow> string list" where
  "dedup_first toks = rev (remdups (rev toks))"

text \<open>Modelled from the spec: "ranked by descending frequency, ties broken by
  first-occurrence position (earlier wins); the result is deduplicated and ordered"
  (the extractor's file is missing). \<open>sort_key\<close> is a stable insertion sort.\<close>

definition rank_keywords :: "string list \<Rightarrow> string list" where
  "rank_keywords toks = sort_key (\<lambda>t. - int (count_list toks t)) (dedup_first toks)"

text \<open>Modelled from the spec: the keywords of \<^verbatim>\<open>extract(text)\<close>, the ranked significant
  tokens (the extractor's file is missing).\<close>

definition extract_keywords :: "extractor_config \<Rightarrow> string \<Rightarrow> string list" where
  "extract_keywords cfg text = rank_keywords (significant_tokens cfg text)"

subsection \<open>Scorer and facade (spec 4.5, 4.7)\<close>

text \<open>Modelled from the spec: the two weights of the score, constants of the missing
  matcher.ts whose values the specification leaves open.\<close>

record weights =
  w_skill :: rat
  w_keyword :: rat

text \<open>The result of a match, with the fields the routes read from it
  (\<^verbatim>\<open>matchResult.matchScore\<close> and so on, lines 79-84 of match.ts) and the
  specification lists in section 3. The score is a rational number here and a
  floating-point number in the program.\<close>

record match_result =
  matchScore :: rat
  matchPercentage :: int
  status :: match_status
  matchedKeywords :: "string list"
  missingKeywords :: "string list"

text \<open>Modelled from the spec, step 2 of the scorer:
  \<^verbatim>\<open>matchedKeywords = jobKeywords \<inter> (resumeKeywords \<union> resumeSkills)\<close> in the order of
  \<^verbatim>\<open>jobKeywords\<close> (matcher.ts is missing).\<close>

definition matched_of :: "string list \<Rightarrow> string list \<Rightarrow> string list \<Rightarrow> string list" where
  "matched_of resumeKeywords resumeSkills jobKeywords =
     filter (\<lambda>k. k \<in> set resumeKeywords \<or> k \<in> set resumeSkills) jobKeywords"

text \<open>Modelled from the spec, step 2 of the scorer:
  \<^verbatim>\<open>missingKeywords = jobKeywords \ matchedKeywords\<close>, same order (matcher.ts is
  missing).\<close>

definition missing_of :: "string list \<Rightarrow> string list \<Rightarrow> string list" where
  "missing_of matched jobKeywords = filter (\<lambda>k. k \<notin> set matched) jobKeywords"

text \<open>Modelled from the spec, step 3 of the scorer: a ratio \<^verbatim>\<open>a / max(1, b)\<close>
  (matcher.ts is missing).\<close>

definition overlap_ratio :: "nat \<Rightarrow> nat \<Rightarrow> rat" where
  "overlap_ratio a b = of_nat a / of_nat (max 1 b)"

text \<open>Modelled from the spec, step 3 of the scorer:
  \<^verbatim>\<open>|resumeSkills \<inter> jobSkills| / max(1, |jobSkills|)\<close>, the skills counted as sets
  (matcher.ts is missing).\<close>

definition skillOverlapRatio :: "string list \<Rightarrow> string list \<Rightarrow> rat" where
  "skillOverlapRatio resumeSkills jobSkills =
     overlap_ratio (length (filter (\<lambda>s. s \<in> set resumeSkills) (remdups jobSkills)))
                   (length (remdups jobSkills))"

text \<open>Modelled from the spec, step 3 of the scorer:
  \<^verbatim>\<open>|matchedKeywords| / max(1, |jobKeywords|)\<close> (matcher.ts is missing).\<close>

definition keywordOverlapRatio :: "string list \<Rightarrow> string list \<Rightarrow> rat" where
  "keywordOverlapRatio matched jobKeywords =
     overlap_ratio (length matched) (length jobKeywords)"

text \<open>Modelled from the spec, step 3 of the scorer:
  \<^verbatim>\<open>w_skill * skillOverlapRatio + w_keyword * keywordOverlapRatio\<close> (matcher.ts is
  missing).\<close>

definition weighted_score :: "weights \<Rightarrow> rat \<Rightarrow> rat \<Rightarrow> rat" where
  "weighted_score w skillRatio keywordRatio =
     w_skill w * skillRatio + w_keyword w * keywordRatio"

text \<open>Modelled from the spec: the \<^verbatim>\<open>round\<close> of step 4, to the nearest integer with
  halves upwards as JavaScript's \<^verbatim>\<open>Math.round\<close> (matcher.ts is missing).\<close>

definition round_half_up :: "rat \<Rightarrow> int" where
  "round_half_up x = \<lfloor>x + 1 / 2\<rfloor>"

text \<open>Modelled from the spec: "clamped to [0,100]" of step 4 (matcher.ts is
  missing).\<close>

definition clamp :: "int \<Rightarrow> int \<Rightarrow> int \<Rightarrow> int" where
  "clamp lo hi x = max lo (min hi x)"

text \<open>Modelled from the spec, step 4 of the scorer: \<^verbatim>\<open>round(matchScore * 100)\<close>,
  clamped to [0,100] (matcher.ts is missing).\<close>

definition percentage_of :: "rat \<Rightarrow> int" where
  "percentage_of score = clamp 0 100 (round_half_up (score * 100))"

text \<open>Modelled from the spec: \<^verbatim>\<open>matchResumeToJD(resumeKeywords, resumeSkills, resumeText,
  jobDescriptionText)\<close> of section 4.7, the scorer of 4.5 followed by the classifier
  (matcher.ts is missing). The resume text takes no part in the algorithm the
  specification gives.\<close>

definition matchResumeToJD ::
  "extractor_config \<Rightarrow> weights \<Rightarrow> string list \<Rightarrow> string list \<Rightarrow> string \<Rightarrow> string
     \<Rightarrow> match_result" where
  "matchResumeToJD cfg w resumeKeywords resumeSkills resumeText jobDescriptionText =
     (let jobKeywords = extract_keywords cfg jobDescriptionText;
          jobSkills = extract_skills cfg jobDescriptionText;
          matched = matched_of resumeKeywords resumeSkills jobKeywords;
          missing = missing_of matched jobKeywords;
          score = weighted_score w (skillOverlapRatio resumeSkills jobSkills)
                                   (keywordOverlapRatio matched jobKeywords);
          percentage = percentage_of score
      in \<lparr> matchScore = score,
           matchPercentage = percentage,
           status = classify percentage,
           matchedKeywords = matched,
           missingKeywords = missing \<rparr>)"

subsection \<open>A concrete configuration\<close>

text \<open>A small instance of the static tables and of the weights, used to run the
  engine on concrete texts.\<close>

definition example_config :: extractor_config where
  "example_config =
     \<lparr> stopWords = [''with'', ''and'', ''for'', ''the''],
       taxonomy = [(''python'', [''py'']), (''javascript'', [''js'']), (''aws'', [])],
       technicalPattern = (\<lambda>_. False) \<rparr>"

definition example_weights :: weights where
  "example_weights = \<lparr> w_skill = 3 / 5, w_keyword = 2 / 5 \<rparr>"

text \<open>A taxonomy in which one token names three skills: "py" is a canonical name and a
  synonym of two others.\<close>

definition overlapping_config :: extractor_config where
  "overlapping_config =
     \<lparr> stopWords = [],
       taxonomy = [(''py'', []), (''js'', [''py'']), (''go'', [''py''])],
       technicalPattern = (\<lambda>_. False) \<rparr>"

section \<open>The routes of match.ts\<close>

text \<open>
  The handlers of \<^verbatim>\<open>src/backend/src/routes/match.ts\<close>. A handler is a computation over a
  \<open>world\<close>: the two collections it reads and writes, the outcome of each database call,
  and the log of the calls made to the parser and to the matcher. It returns a value or
  raises an exception (\<open>Inl\<close>). The authentication middleware, which runs before every
  handler and supplies \<^verbatim>\<open>req.userId\<close>, is not modelled: a handler is given the user.
\<close>

subsection \<open>Data\<close>

type_synonym oid = nat
type_synonym user_id = string
type_synonym buffer = "char list"

text \<open>A thrown value: an object whose \<^verbatim>\<open>message\<close> may be missing. The handlers read
  nothing else of it. A thrown \<^verbatim>\<open>null\<close> or \<^verbatim>\<open>undefined\<close> is not modelled.\<close>

datatype exn = Exn (message: "string option")

datatype application_status = Applied | Interview | Offer | ApplicationRejected

record experience_entry =
  company :: string
  position :: string
  duration :: string
  description :: string

record education_entry =
  degree :: string
  institution :: string
  year :: string
  field :: string

record parsed_resume =
  skills :: "string list"
  keywords' :: "string list"
  email :: string
  experience :: "experience_entry list"
  education :: "education_entry list"
  certificates :: "string list"

text \<open>A document of the \<^verbatim>\<open>Resume\<close> collection, with the fields the handlers write
  (\<^verbatim>\<open>Resume.create\<close>, lines 359-376). The field names carry the prefix \<open>r_\<close>.\<close>

record resume =
  r_id :: oid
  r_userId :: user_id
  r_jobDescriptionId :: string
  r_applicationId :: "oid option"
  r_fileName :: string
  r_originalText :: string
  r_skills :: "string list"
  r_keywords :: "string list"
  r_email :: string
  r_experience :: "experience_entry list"
  r_education :: "education_entry list"
  r_certificates :: "string list"
  r_matchScore :: rat
  r_matchPercentage :: int
  r_status :: match_status
  r_matchedKeywords :: "string list"
  r_missingKeywords :: "string list"

text \<open>A string field as a document stores it: missing from the document, stored as
  \<^verbatim>\<open>null\<close>, or a string. The query of lines 106-110 tells the three apart.\<close>

datatype stored_string = Missing | Null | Str string

text \<open>What the program reads from such a field: \<^verbatim>\<open>undefined\<close> or \<^verbatim>\<open>null\<close> (both \<open>None\<close>)
  or the string.\<close>

definition read_field :: "stored_string \<Rightarrow> string option" where
  "read_field f = (case f of Missing \<Rightarrow> None | Null \<Rightarrow> None | Str s \<Rightarrow> Some s)"

text \<open>A document of the \<^verbatim>\<open>Application\<close> collection, with the fields the handlers read
  or write. The field names carry the prefix \<open>a_\<close>.\<close>

record application =
  a_id :: oid
  a_userId :: user_id
  a_candidateEmail :: "string option"
  a_status :: application_status
  a_resumeFileName :: stored_string
  a_resumeFilePath :: "string option"

record upload_file =
  originalname :: string
  buffer :: buffer

text \<open>The fields of \<^verbatim>\<open>Resume.create\<close>: a resume without its \<^verbatim>\<open>_id\<close>.\<close>

record new_resume =
  n_userId :: user_id
  n_jobDescriptionId :: string
  n_applicationId :: "oid option"
  n_fileName :: string
  n_originalText :: string
  n_parsed :: parsed_resume
  n_email :: string
  n_matchScore :: rat
  n_matchPercentage :: int
  n_status :: match_status
  n_matchedKeywords :: "string list"
  n_missingKeywords :: "string list"

text \<open>One element of \<^verbatim>\<open>results\<close>: a processed resume (lines 411-421 and 250-260) or an
  error entry with the file name and the message (lines 423-426).\<close>

record matched_entry =
  e_id :: oid
  e_fileName :: string
  e_matchPercentage :: int
  e_status :: match_status
  e_email :: string
  e_skills :: "string list"
  e_matchedKeywords :: "string list"
  e_missingKeywords :: "string list"
  e_applicationId :: "oid option"

datatype result_entry = Matched matched_entry | Failed string string

text \<open>The body of the single-match response (lines 78-86).\<close>

record single_payload =
  score :: rat
  p_matchPercentage :: int
  decision :: match_status
  threshold :: int
  p_matchedKeywords :: "string list"
  p_missingKeywords :: "string list"
  parsedResume :: parsed_resume

datatype response =
    BadRequest string
  | NotFound string
  | ServerError string
  | SingleOk single_payload
  | BatchOk nat "result_entry list"
  | ResumeOk resume

datatype call =
    CallParseResume string
  | CallMatchResumeToJD "string list" "string list" string string

record world =
  resumes :: "resume list"
  applications :: "application list"
  next_oid :: oid
  faults :: "exn option list"
  calls :: "call list"

datatype encoding = Utf8 | Latin1 | Ascii

text \<open>The collaborators that are not in the sources: the parser and the matcher
  (\<^verbatim>\<open>utils/resumeParser.ts\<close>, \<^verbatim>\<open>utils/matcher.ts\<close>), the PDF helpers
  (\<^verbatim>\<open>utils/pdfParser.ts\<close>), and the library functions \<^verbatim>\<open>Buffer.toString\<close>,
  \<^verbatim>\<open>fs.readFileSync\<close>, the cast of a string to an \<^verbatim>\<open>ObjectId\<close> and its printing.
  \<open>has_replacement_char\<close> is the test of a text for the replacement character
  U+FFFD (line 40). Each may raise where its type says so.\<close>

record env =
  env_parseResume :: "string \<Rightarrow> exn + parsed_resume"
  env_matchResumeToJD :: "string list \<Rightarrow> string list \<Rightarrow> string \<Rightarrow> string \<Rightarrow> exn + match_result"
  isPDF :: "buffer \<Rightarrow> bool"
  extractTextFromPDF :: "buffer \<Rightarrow> exn + string"
  toString :: "encoding \<Rightarrow> buffer \<Rightarrow> string"
  has_replacement_char :: "string \<Rightarrow> bool"
  readFileSync :: "string \<Rightarrow> exn + buffer"
  castObjectId :: "string \<Rightarrow> exn + oid"
  oidToString :: "oid \<Rightarrow> string"

subsection \<open>Computations\<close>

type_synonym 'a io = "world \<Rightarrow> (exn + 'a) \<times> world"

definition io_return :: "'a \<Rightarrow> 'a io" where
  "io_return x = (\<lambda>w. (Inr x, w))"

definition io_throw :: "exn \<Rightarrow> 'a io" where
  "io_throw e = (\<lambda>w. (Inl e, w))"

definition io_bind :: "'a io \<Rightarrow> ('a \<Rightarrow> 'b io) \<Rightarrow> 'b io" where
  "io_bind m f = (\<lambda>w. case m w of (Inl e, w') \<Rightarrow> (Inl e, w') | (Inr x, w') \<Rightarrow> f x w')"

text \<open>\<^verbatim>\<open>try { m } catch (err) { h(err) }\<close>\<close>

definition io_catch :: "'a io \<Rightarrow> (exn \<Rightarrow> 'a io) \<Rightarrow> 'a io" where
  "io_catch m h = (\<lambda>w. case m w of (Inl e, w') \<Rightarrow> h e w' | (Inr x, w') \<Rightarrow> (Inr x, w'))"

definition io_lift :: "exn + 'a \<Rightarrow> 'a io" where
  "io_lift r = (\<lambda>w. (r, w))"

text \<open>\<^verbatim>\<open>err.message || fallback\<close>\<close>

definition message_or :: "exn \<Rightarrow> string \<Rightarrow> string" where
  "message_or err fallback =
     (case message err of None \<Rightarrow> fallback | Some m \<Rightarrow> if m = [] then fallback else m)"

text \<open>\<^verbatim>\<open>value || fallback\<close> for an optional string.\<close>

definition string_or :: "string option \<Rightarrow> string \<Rightarrow> string" where
  "string_or v fallback =
     (case v of None \<Rightarrow> fallback | Some s \<Rightarrow> if s = [] then fallback else s)"

definition truthy :: "string option \<Rightarrow> bool" where
  "truthy v = (case v of None \<Rightarrow> False | Some s \<Rightarrow> s \<noteq> [])"

text \<open>The calls to the parser and to the matcher, logged.\<close>

definition call_parseResume :: "env \<Rightarrow> string \<Rightarrow> parsed_resume io" where
  "call_parseResume env text =
     (\<lambda>w. (env_parseResume env text, w\<lparr>calls := calls w @ [CallParseResume text]\<rparr>))"

definition call_matchResumeToJD ::
  "env \<Rightarrow> string list \<Rightarrow> string list \<Rightarrow> string \<Rightarrow> string \<Rightarrow> match_result io" where
  "call_matchResumeToJD env kws sks text jd =
     (\<lambda>w. (env_matchResumeToJD env kws sks text jd,
           w\<lparr>calls := calls w @ [CallMatchResumeToJD kws sks text jd]\<rparr>))"

subsection \<open>The database\<close>

text \<open>
  \<^verbatim>\<open>Resume\<close> and \<^verbatim>\<open>Application\<close> are Mongoose models (declared in \<^verbatim>\<open>models/Resume.ts\<close> and
  \<^verbatim>\<open>models/Application.ts\<close>, which are not among the sources). The calls the handlers
  make on them are calls of the Mongoose library; each is modelled by what the library
  documents for it, on two lists of documents in insertion order. Any call may reject
  (a lost connection, a document the schema refuses): it rejects with the exception
  \<open>faults\<close> holds for it, and otherwise runs on the collections. Every call takes one
  entry of \<open>faults\<close>; past the end of the list no call rejects.
\<close>

definition db :: "(world \<Rightarrow> 'a \<times> world) \<Rightarrow> 'a io" where
  "db f =
     (\<lambda>w. case faults w of
            [] \<Rightarrow> (case f w of (x, w') \<Rightarrow> (Inr x, w'))
          | None # rest \<Rightarrow> (case f (w\<lparr>faults := rest\<rparr>) of (x, w') \<Rightarrow> (Inr x, w'))
          | Some e # rest \<Rightarrow> (Inl e, w\<lparr>faults := rest\<rparr>))"

fun update_first :: "('a \<Rightarrow> bool) \<Rightarrow> ('a \<Rightarrow> 'a) \<Rightarrow> 'a list \<Rightarrow> 'a list" where
  "update_first p f [] = []"
| "update_first p f (x # xs) = (if p x then f x # xs else x # update_first p f xs)"

text \<open>\<^verbatim>\<open>Resume.findOne({ userId, email, jobDescriptionId: { $regex: /^app-/ } })\<close>\<close>

definition Resume_findOne_from_application :: "user_id \<Rightarrow> string \<Rightarrow> resume option io" where
  "Resume_findOne_from_application userId mail =
     db (\<lambda>w. (find (\<lambda>r. r_userId r = userId \<and> r_email r = mail \<and>
                         take 4 (r_jobDescriptionId r) = ''app-'') (resumes w), w))"

text \<open>\<^verbatim>\<open>Application.findOne({ userId, candidateEmail })\<close>\<close>

definition Application_findOne_by_email :: "user_id \<Rightarrow> string \<Rightarrow> application option io" where
  "Application_findOne_by_email userId mail =
     db (\<lambda>w. (find (\<lambda>a. a_userId a = userId \<and> a_candidateEmail a = Some mail)
                    (applications w), w))"

text \<open>\<^verbatim>\<open>doc.save()\<close> of a document read from the collection: the stored document with
  its \<^verbatim>\<open>_id\<close> is replaced; the call rejects when there is none.\<close>

definition Resume_save :: "resume \<Rightarrow> unit io" where
  "Resume_save doc =
     io_bind
       (db (\<lambda>w. (list_ex (\<lambda>r. r_id r = r_id doc) (resumes w),
                 w\<lparr>resumes := update_first (\<lambda>r. r_id r = r_id doc) (\<lambda>_. doc) (resumes w)\<rparr>)))
       (\<lambda>found. if found then io_return ()
                 else io_throw (Exn (Some ''No document found for query'')))"

definition resume_of_new :: "oid \<Rightarrow> new_resume \<Rightarrow> resume" where
  "resume_of_new i n =
     \<lparr> r_id = i,
       r_userId = n_userId n,
       r_jobDescriptionId = n_jobDescriptionId n,
       r_applicationId = n_applicationId n,
       r_fileName = n_fileName n,
       r_originalText = n_originalText n,
       r_skills = skills (n_parsed n),
       r_keywords = keywords' (n_parsed n),
       r_email = n_email n,
       r_experience = experience (n_parsed n),
       r_education = education (n_parsed n),
       r_certificates = certificates (n_parsed n),
       r_matchScore = n_matchScore n,
       r_matchPercentage = n_matchPercentage n,
       r_status = n_status n,
       r_matchedKeywords = n_matchedKeywords n,
       r_missingKeywords = n_missingKeywords n \<rparr>"

text \<open>\<^verbatim>\<open>Resume.create({...})\<close>: the document gets a new \<^verbatim>\<open>_id\<close> and is added.\<close>

definition Resume_create :: "new_resume \<Rightarrow> resume io" where
  "Resume_create n =
     db (\<lambda>w. let doc = resume_of_new (next_oid w) n
              in (doc, w\<lparr>resumes := resumes w @ [doc], next_oid := Suc (next_oid w)\<rparr>))"

text \<open>\<^verbatim>\<open>Application.findOneAndUpdate({ _id, userId }, { status })\<close>; the handlers drop
  what it returns.\<close>

definition Application_findOneAndUpdate :: "oid \<Rightarrow> user_id \<Rightarrow> application_status \<Rightarrow> unit io" where
  "Application_findOneAndUpdate appId userId st =
     db (\<lambda>w. ((), w\<lparr>applications :=
                     update_first (\<lambda>a. a_id a = appId \<and> a_userId a = userId)
                                  (\<lambda>a. a\<lparr>a_status := st\<rparr>) (applications w)\<rparr>))"

text \<open>\<^verbatim>\<open>Resume.findOneAndUpdate({ _id: id, userId }, { status }, { new: true })\<close>\<close>

definition Resume_findOneAndUpdate :: "oid \<Rightarrow> user_id \<Rightarrow> match_status \<Rightarrow> resume option io" where
  "Resume_findOneAndUpdate rid userId st =
     db (\<lambda>w. (map_option (\<lambda>r. r\<lparr>r_status := st\<rparr>)
                 (find (\<lambda>r. r_id r = rid \<and> r_userId r = userId) (resumes w)),
               w\<lparr>resumes := update_first (\<lambda>r. r_id r = rid \<and> r_userId r = userId)
                                         (\<lambda>r. r\<lparr>r_status := st\<rparr>) (resumes w)\<rparr>))"

text \<open>\<^verbatim>\<open>Application.find({ userId, _id: { $in: ids }, resumeFileName: { $exists: true,
  $ne: null, $ne: "" } })\<close> (lines 106-110). The object literal has the key \<^verbatim>\<open>$ne\<close> twice
  and keeps the last one, so the condition on the file name is
  \<^verbatim>\<open>{ $exists: true, $ne: "" }\<close>: a document that has the field passes unless the field is
  the empty string, and a stored \<^verbatim>\<open>null\<close> passes.\<close>

definition Application_find_with_resume :: "user_id \<Rightarrow> oid list \<Rightarrow> application list io" where
  "Application_find_with_resume userId ids =
     db (\<lambda>w. (filter (\<lambda>a. a_userId a = userId \<and> a_id a \<in> set ids \<and>
                           a_resumeFileName a \<noteq> Missing \<and> a_resumeFileName a \<noteq> Str [])
                      (applications w), w))"

text \<open>\<^verbatim>\<open>Resume.find({ userId, applicationId: { $in: ids } })\<close> (lines 117-120)\<close>

definition Resume_find_by_applications :: "user_id \<Rightarrow> oid list \<Rightarrow> resume list io" where
  "Resume_find_by_applications userId ids =
     db (\<lambda>w. (filter (\<lambda>r. r_userId r = userId \<and>
                           (case r_applicationId r of None \<Rightarrow> False | Some a \<Rightarrow> a \<in> set ids))
                      (resumes w), w))"

text \<open>The status of the application linked to a resume of the user: the document the
  filter \<^verbatim>\<open>{ _id, userId }\<close> selects.\<close>

definition linked_application_status ::
  "oid \<Rightarrow> user_id \<Rightarrow> application list \<Rightarrow> application_status option" where
  "linked_application_status appId userId apps =
     map_option a_status (find (\<lambda>a. a_id a = appId \<and> a_userId a = userId) apps)"

subsection \<open>Request validation\<close>

text \<open>\<^verbatim>\<open>payloadSchema.safeParse(req.body)\<close> (lines 18-21): the parsed data on success.
  A field of the body is \<open>None\<close> when it is missing or is not a string, and
  \<^verbatim>\<open>z.string().min(10)\<close> asks for a length of at least 10. The length is the number
  of characters, which is JavaScript's \<^verbatim>\<open>length\<close> on text whose characters take one
  UTF-16 unit each.\<close>

definition payloadSchema :: "string option \<Rightarrow> string option \<Rightarrow> (string \<times> string) option" where
  "payloadSchema resumeText jobDescription =
     (case resumeText of
        None \<Rightarrow> None
      | Some rt \<Rightarrow>
          (case jobDescription of
             None \<Rightarrow> None
           | Some jd \<Rightarrow> if 10 \<le> length rt \<and> 10 \<le> length jd then Some (rt, jd) else None))"

text \<open>\<^verbatim>\<open>bulkSchema.safeParse(req.body)\<close> (lines 24-27)\<close>

definition bulkSchema :: "string option \<Rightarrow> string option \<Rightarrow> (string \<times> string) option" where
  "bulkSchema jobDescription jobDescriptionId =
     (case jobDescription of
        None \<Rightarrow> None
      | Some jd \<Rightarrow>
          (case jobDescriptionId of
             None \<Rightarrow> None
           | Some jid \<Rightarrow> if 10 \<le> length jd \<and> 1 \<le> length jid then Some (jd, jid) else None))"

subsection \<open>Reading an uploaded file (lines 30-56)\<close>

fun replace_crlf :: "string \<Rightarrow> string" where
  "replace_crlf (a # b # rest) =
     (if a = CHR 0x0D \<and> b = CHR 0x0A then CHR 0x0A # replace_crlf rest
      else a # replace_crlf (b # rest))"
| "replace_crlf cs = cs"

definition is_control :: "char \<Rightarrow> bool" where
  "is_control c =
     (let n = (of_char c :: nat)
      in n \<le> 8 \<or> n = 11 \<or> n = 12 \<or> (14 \<le> n \<and> n \<le> 31) \<or> n = 127)"

definition is_printable :: "char \<Rightarrow> bool" where
  "is_printable c =
     (let n = (of_char c :: nat)
      in (32 \<le> n \<and> n \<le> 126) \<or> n = 10 \<or> n = 13 \<or> n = 9)"

text \<open>Lines 38-46: UTF-8 first, and Latin-1 when the text has a replacement character
  or is shorter than half the buffer. \<^verbatim>\<open>Buffer.toString\<close> does not raise, so the inner
  \<^verbatim>\<open>catch\<close> (UTF-16) is never entered.\<close>

definition decode_text :: "env \<Rightarrow> buffer \<Rightarrow> string" where
  "decode_text env buf =
     (let decoded = toString env Utf8 buf
      in if has_replacement_char env decoded \<or> 2 * length decoded < length buf
         then toString env Latin1 buf
         else decoded)"

text \<open>Lines 48-50: line ends to \<^verbatim>\<open>\n\<close>, control characters removed.\<close>

definition clean_text :: "string \<Rightarrow> string" where
  "clean_text decoded =
     filter (\<lambda>c. \<not> is_control c)
       (map (\<lambda>c. if c = CHR 0x0D then CHR 0x0A else c) (replace_crlf decoded))"

text \<open>\<^verbatim>\<open>readFileAsText\<close>: whatever the \<^verbatim>\<open>try\<close> block raises, the extraction of a PDF's
  text included, is caught and the buffer is decoded as ASCII (lines 52-55). The
  function returns a text for every file.\<close>

definition readFileAsText :: "env \<Rightarrow> upload_file \<Rightarrow> string" where
  "readFileAsText env upload =
     (case (if isPDF env (buffer upload) then extractTextFromPDF env (buffer upload)
            else Inr (clean_text (decode_text env (buffer upload)))) of
        Inr decoded \<Rightarrow> decoded
      | Inl err \<Rightarrow> filter is_printable (toString env Ascii (buffer upload)))"

subsection \<open>The single-match handler (lines 59-87)\<close>

definition post_match :: "env \<Rightarrow> string option \<Rightarrow> string option \<Rightarrow> response io" where
  "post_match env resumeText jobDescription =
     (case payloadSchema resumeText jobDescription of
        None \<Rightarrow> io_return (BadRequest ''Invalid input'')
      | Some (rt, jd) \<Rightarrow>
          io_bind (call_parseResume env rt) (\<lambda>pr.
          io_bind (call_matchResumeToJD env (keywords' pr) (skills pr) rt jd) (\<lambda>mr.
          io_return (SingleOk
            \<lparr> score = matchScore mr,
              p_matchPercentage = matchPercentage mr,
              decision = status mr,
              threshold = 80,
              p_matchedKeywords = matchedKeywords mr,
              p_missingKeywords = missingKeywords mr,
              parsedResume = pr \<rparr>))))"

subsection \<open>The application's status after a resume's (lines 220-248, 380-409, 516-545)\<close>

text \<open>The three handlers hold the same block, with the resume and the status under
  different names: \<^verbatim>\<open>applicationStatus\<close> is \<^verbatim>\<open>"interview"\<close> for a shortlisted resume,
  \<^verbatim>\<open>"rejected"\<close> for a rejected one and stays \<^verbatim>\<open>undefined\<close> otherwise.\<close>

definition applicationStatus_for :: "match_status \<Rightarrow> application_status option" where
  "applicationStatus_for st =
     (if st = Shortlisted then Some Interview
      else if st = Rejected then Some ApplicationRejected
      else None)"

text \<open>The block: nothing without an application id; the update runs inside a
  \<^verbatim>\<open>try\<close> whose \<^verbatim>\<open>catch\<close> only logs.\<close>

definition updateApplicationStatus :: "oid option \<Rightarrow> user_id \<Rightarrow> match_status \<Rightarrow> unit io" where
  "updateApplicationStatus applicationId userId st =
     (case applicationId of
        None \<Rightarrow> io_return ()
      | Some appId \<Rightarrow>
          io_catch
            (case applicationStatus_for st of
               None \<Rightarrow> io_return ()
             | Some applicationStatus \<Rightarrow>
                 Application_findOneAndUpdate appId userId applicationStatus)
            (\<lambda>err. io_return ()))"

subsection \<open>The bulk-upload handler (lines 280-438)\<close>

text \<open>\<^verbatim>\<open>String.prototype.toLowerCase\<close>. A character of a string here is one of the 256
  code points U+0000 to U+00FF; among them the letters with a lower-case form are
  \<^verbatim>\<open>A\<close> to \<^verbatim>\<open>Z\<close> and U+00C0 to U+00DE without the multiplication sign U+00D7, and the
  lower-case form is 32 code points up.\<close>

definition toLowerCase :: "string \<Rightarrow> string" where
  "toLowerCase s =
     map (\<lambda>c. let n = (of_char c :: nat)
              in if (65 \<le> n \<and> n \<le> 90) \<or> (192 \<le> n \<and> n \<le> 222 \<and> n \<noteq> 215)
                 then char_of (n + 32) else c) s"

text \<open>Lines 314-338: the application the resume belongs to, through a stored resume
  with the same email or through an application with it.\<close>

definition bulk_link :: "user_id \<Rightarrow> parsed_resume \<Rightarrow> (oid option \<times> resume option) io" where
  "bulk_link userId pr =
     (if email pr \<noteq> [] then
        io_bind (Resume_findOne_from_application userId (email pr)) (\<lambda>existingResume.
          case existingResume of
            None \<Rightarrow>
              io_bind (Application_findOne_by_email userId (toLowerCase (email pr)))
                (\<lambda>found. io_return (map_option a_id found, None))
          | Some r \<Rightarrow> io_return (r_applicationId r, Some r))
      else io_return (None, None))"

text \<open>Lines 344-355: the fields assigned to the stored resume before \<^verbatim>\<open>save()\<close>.\<close>

definition bulk_updated_resume ::
  "string \<Rightarrow> string \<Rightarrow> parsed_resume \<Rightarrow> match_result \<Rightarrow> resume \<Rightarrow> resume" where
  "bulk_updated_resume jobDescriptionId resumeText pr mr r =
     r\<lparr> r_jobDescriptionId := jobDescriptionId,
        r_matchScore := matchScore mr,
        r_matchPercentage := matchPercentage mr,
        r_status := status mr,
        r_matchedKeywords := matchedKeywords mr,
        r_missingKeywords := missingKeywords mr,
        r_originalText := resumeText,
        r_skills := skills pr,
        r_keywords := keywords' pr,
        r_experience := experience pr,
        r_education := education pr,
        r_certificates := certificates pr \<rparr>"

text \<open>Lines 359-376: the fields of the new resume.\<close>

definition bulk_new_resume ::
  "user_id \<Rightarrow> string \<Rightarrow> oid option \<Rightarrow> upload_file \<Rightarrow> string \<Rightarrow> parsed_resume
     \<Rightarrow> match_result \<Rightarrow> new_resume" where
  "bulk_new_resume userId jobDescriptionId applicationId upload resumeText pr mr =
     \<lparr> n_userId = userId,
       n_jobDescriptionId = jobDescriptionId,
       n_applicationId = applicationId,
       n_fileName = originalname upload,
       n_originalText = resumeText,
       n_parsed = pr,
       n_email = email pr,
       n_matchScore = matchScore mr,
       n_matchPercentage = matchPercentage mr,
       n_status = status mr,
       n_matchedKeywords = matchedKeywords mr,
       n_missingKeywords = missingKeywords mr \<rparr>"

text \<open>Lines 340-378: the stored resume is updated when it has an application, and a
  new resume is created otherwise.\<close>

definition bulk_store ::
  "user_id \<Rightarrow> string \<Rightarrow> upload_file \<Rightarrow> string \<Rightarrow> parsed_resume \<Rightarrow> match_result
     \<Rightarrow> oid option \<times> resume option \<Rightarrow> resume io" where
  "bulk_store userId jobDescriptionId upload resumeText pr mr link =
     (case link of
        (applicationId, Some r) \<Rightarrow>
          (if r_applicationId r \<noteq> None then
             (let doc = bulk_updated_resume jobDescriptionId resumeText pr mr r
              in io_bind (Resume_save doc) (\<lambda>_. io_return doc))
           else Resume_create
                  (bulk_new_resume userId jobDescriptionId applicationId upload resumeText pr mr))
      | (applicationId, None) \<Rightarrow>
          Resume_create
            (bulk_new_resume userId jobDescriptionId applicationId upload resumeText pr mr))"

text \<open>Lines 300-378: one file up to the stored resume.\<close>

definition bulk_prepare ::
  "env \<Rightarrow> user_id \<Rightarrow> string \<Rightarrow> string \<Rightarrow> upload_file
     \<Rightarrow> (parsed_resume \<times> match_result \<times> resume) io" where
  "bulk_prepare env userId jobDescription jobDescriptionId upload =
     (let resumeText = readFileAsText env upload
      in io_bind (call_parseResume env resumeText) (\<lambda>pr.
         io_bind (call_matchResumeToJD env (keywords' pr) (skills pr) resumeText jobDescription)
           (\<lambda>mr.
         io_bind (bulk_link userId pr) (\<lambda>link.
         io_bind (bulk_store userId jobDescriptionId upload resumeText pr mr link) (\<lambda>doc.
         io_return (pr, mr, doc))))))"

text \<open>Lines 380-421: the application's status, then the entry of the results.\<close>

definition bulk_entry :: "upload_file \<Rightarrow> parsed_resume \<Rightarrow> match_result \<Rightarrow> resume \<Rightarrow> matched_entry" where
  "bulk_entry upload pr mr doc =
     \<lparr> e_id = r_id doc,
       e_fileName = originalname upload,
       e_matchPercentage = matchPercentage mr,
       e_status = status mr,
       e_email = email pr,
       e_skills = skills pr,
       e_matchedKeywords = take 10 (matchedKeywords mr),
       e_missingKeywords = take 10 (missingKeywords mr),
       e_applicationId = r_applicationId doc \<rparr>"

definition bulk_finish ::
  "user_id \<Rightarrow> upload_file \<Rightarrow> parsed_resume \<times> match_result \<times> resume \<Rightarrow> result_entry io" where
  "bulk_finish userId upload prepared =
     (case prepared of
        (pr, mr, doc) \<Rightarrow>
          io_bind (updateApplicationStatus (r_applicationId doc) userId (status mr)) (\<lambda>_.
          io_return (Matched (bulk_entry upload pr mr doc))))"

text \<open>Lines 299-427: the body of the loop, with its \<^verbatim>\<open>catch\<close>.\<close>

definition bulk_item ::
  "env \<Rightarrow> user_id \<Rightarrow> string \<Rightarrow> string \<Rightarrow> upload_file \<Rightarrow> result_entry io" where
  "bulk_item env userId jobDescription jobDescriptionId upload =
     io_catch
       (io_bind (bulk_prepare env userId jobDescription jobDescriptionId upload)
                (bulk_finish userId upload))
       (\<lambda>err. io_return (Failed (originalname upload)
                                 (message_or err ''Failed to process resume'')))"

fun bulk_loop ::
  "env \<Rightarrow> user_id \<Rightarrow> string \<Rightarrow> string \<Rightarrow> upload_file list \<Rightarrow> result_entry list
     \<Rightarrow> result_entry list io" where
  "bulk_loop env userId jobDescription jobDescriptionId [] results = io_return results"
| "bulk_loop env userId jobDescription jobDescriptionId (upload # rest) results =
     io_bind (bulk_item env userId jobDescription jobDescriptionId upload) (\<lambda>entry.
       bulk_loop env userId jobDescription jobDescriptionId rest (results @ [entry]))"

text \<open>Lines 280-438: the handler of the route, the function that runs once the upload
  middleware has handed it the files.\<close>

definition post_bulk ::
  "env \<Rightarrow> user_id \<Rightarrow> upload_file list \<Rightarrow> string option \<Rightarrow> string option \<Rightarrow> response io" where
  "post_bulk env userId files jobDescription jobDescriptionId =
     io_catch
       (if files = [] then io_return (BadRequest ''No files uploaded'')
        else
          (case bulkSchema jobDescription jobDescriptionId of
             None \<Rightarrow> io_return (BadRequest ''Invalid input'')
           | Some (jd, jid) \<Rightarrow>
               io_bind (bulk_loop env userId jd jid files []) (\<lambda>results.
               io_return (BatchOk (length results) results))))
       (\<lambda>err. io_return (ServerError (message_or err ''Bulk upload failed'')))"

text \<open>The upload middleware of line 280, \<^verbatim>\<open>upload.array("resumes", 50)\<close>, runs before the
  handler. It accepts at most \<open>maxCount\<close> files under the field; with more it passes a
  \<^verbatim>\<open>MulterError\<close> (message "Unexpected field") to the framework and the handler does
  not run.\<close>

definition upload_array :: "nat \<Rightarrow> upload_file list \<Rightarrow> upload_file list io" where
  "upload_array maxCount files =
     (if maxCount < length files then io_throw (Exn (Some ''Unexpected field''))
      else io_return files)"

text \<open>The route \<^verbatim>\<open>POST /bulk\<close> (line 280): the upload middleware, then the handler. An
  exception that leaves the route (\<open>Inl\<close>) goes to the error handling of the framework,
  which is not among the sources; Express answers it with status 500 unless the
  application installs a handler of its own.\<close>

definition bulk_route ::
  "env \<Rightarrow> user_id \<Rightarrow> upload_file list \<Rightarrow> string option \<Rightarrow> string option \<Rightarrow> response io" where
  "bulk_route env userId uploaded jobDescription jobDescriptionId =
     io_bind (upload_array 50 uploaded) (\<lambda>files.
       post_bulk env userId files jobDescription jobDescriptionId)"

subsection \<open>The stored-resumes handler (lines 90-277)\<close>

text \<open>The handler reads \<^verbatim>\<open>jobDescription\<close>, \<^verbatim>\<open>jobDescriptionId\<close> and \<^verbatim>\<open>applicationIds\<close>
  from the body without a schema. Here the first two are strings or missing, and the
  third is an array of strings or missing (\<open>None\<close> also stands for a value that is not
  an array).\<close>

text \<open>Lines 122-127: the map from an application to its stored resume; a later resume
  of the same application replaces an earlier one.\<close>

definition resume_map :: "resume list \<Rightarrow> oid \<Rightarrow> resume option" where
  "resume_map existingResumes =
     foldl (\<lambda>m r. case r_applicationId r of None \<Rightarrow> m | Some a \<Rightarrow> m(a \<mapsto> r))
           (\<lambda>_. None) existingResumes"

text \<open>Lines 156-171: the resume created from the application's file.\<close>

definition stored_new_resume ::
  "env \<Rightarrow> user_id \<Rightarrow> application \<Rightarrow> string \<Rightarrow> parsed_resume \<Rightarrow> new_resume" where
  "stored_new_resume env userId app resumeText pr =
     \<lparr> n_userId = userId,
       n_jobDescriptionId = ''app-'' @ oidToString env (a_id app),
       n_applicationId = Some (a_id app),
       n_fileName = string_or (read_field (a_resumeFileName app)) ''resume'',
       n_originalText = resumeText,
       n_parsed = pr,
       n_email = (if email pr \<noteq> [] then email pr else string_or (a_candidateEmail app) []),
       n_matchScore = 0,
       n_matchPercentage = 0,
       n_status = Rejected,
       n_matchedKeywords = [],
       n_missingKeywords = [] \<rparr>"

text \<open>Lines 131-197: the stored resume of an application, created from the file when
  there is none; \<open>Inl\<close> is the error entry pushed before \<^verbatim>\<open>continue\<close>.\<close>

definition stored_resume_for ::
  "env \<Rightarrow> user_id \<Rightarrow> (oid \<Rightarrow> resume option) \<Rightarrow> application \<Rightarrow> (result_entry + resume) io" where
  "stored_resume_for env userId resumeMap app =
     (case resumeMap (a_id app) of
        Some storedResume \<Rightarrow> io_return (Inr storedResume)
      | None \<Rightarrow>
          (case a_resumeFilePath app of
             None \<Rightarrow>
               io_return (Inl (Failed (string_or (read_field (a_resumeFileName app)) ''resume'')
                                 ''Resume entry not found and could not be created''))
           | Some path \<Rightarrow>
               if path = [] then
                 io_return (Inl (Failed (string_or (read_field (a_resumeFileName app)) ''resume'')
                                   ''Resume entry not found and could not be created''))
               else
                 io_catch
                   (io_bind (io_lift (readFileSync env path)) (\<lambda>fileBuffer.
                    io_bind (if isPDF env fileBuffer
                             then io_lift (extractTextFromPDF env fileBuffer)
                             else io_return (toString env Utf8 fileBuffer)) (\<lambda>resumeText.
                    if 10 < length resumeText then
                      io_bind (call_parseResume env resumeText) (\<lambda>pr.
                      io_bind (Resume_create (stored_new_resume env userId app resumeText pr))
                        (\<lambda>created. io_return (Inr created)))
                    else
                      io_return (Inl (Failed (string_or (read_field (a_resumeFileName app)) ''resume'')
                                        ''Could not extract text from resume file'')))))
                   (\<lambda>err. io_return
                      (Inl (Failed (string_or (read_field (a_resumeFileName app)) ''resume'')
                              (''Failed to process resume file: '' @
                               message_or err ''Unknown error''))))))"

text \<open>Lines 201-218: the match of the stored resume and its \<^verbatim>\<open>save()\<close>.\<close>

definition stored_updated_resume :: "string \<Rightarrow> match_result \<Rightarrow> resume \<Rightarrow> resume" where
  "stored_updated_resume jobDescriptionId mr r =
     r\<lparr> r_jobDescriptionId := jobDescriptionId,
        r_matchScore := matchScore mr,
        r_matchPercentage := matchPercentage mr,
        r_status := status mr,
        r_matchedKeywords := matchedKeywords mr,
        r_missingKeywords := missingKeywords mr \<rparr>"

definition stored_prepare ::
  "env \<Rightarrow> string \<Rightarrow> string \<Rightarrow> resume \<Rightarrow> (match_result \<times> resume) io" where
  "stored_prepare env jobDescription jobDescriptionId storedResume =
     io_bind (call_matchResumeToJD env (r_keywords storedResume) (r_skills storedResume)
                (r_originalText storedResume) jobDescription) (\<lambda>mr.
       let doc = stored_updated_resume jobDescriptionId mr storedResume
       in io_bind (Resume_save doc) (\<lambda>_. io_return (mr, doc)))"

text \<open>Lines 220-260: the application's status, then the entry of the results.\<close>

definition stored_entry :: "match_result \<Rightarrow> resume \<Rightarrow> matched_entry" where
  "stored_entry mr doc =
     \<lparr> e_id = r_id doc,
       e_fileName = r_fileName doc,
       e_matchPercentage = matchPercentage mr,
       e_status = status mr,
       e_email = r_email doc,
       e_skills = r_skills doc,
       e_matchedKeywords = take 10 (matchedKeywords mr),
       e_missingKeywords = take 10 (missingKeywords mr),
       e_applicationId = r_applicationId doc \<rparr>"

definition stored_finish :: "user_id \<Rightarrow> match_result \<times> resume \<Rightarrow> result_entry io" where
  "stored_finish userId prepared =
     (case prepared of
        (mr, doc) \<Rightarrow>
          io_bind (updateApplicationStatus (r_applicationId doc) userId (status mr)) (\<lambda>_.
          io_return (Matched (stored_entry mr doc))))"

text \<open>Lines 200-266: the \<^verbatim>\<open>try\<close> block on a stored resume, with its \<^verbatim>\<open>catch\<close>.\<close>

definition stored_process ::
  "env \<Rightarrow> user_id \<Rightarrow> string \<Rightarrow> string \<Rightarrow> resume \<Rightarrow> result_entry io" where
  "stored_process env userId jobDescription jobDescriptionId storedResume =
     io_catch
       (io_bind (stored_prepare env jobDescription jobDescriptionId storedResume)
                (stored_finish userId))
       (\<lambda>err. io_return (Failed (r_fileName storedResume)
                                 (message_or err ''Failed to process resume'')))"

definition stored_item ::
  "env \<Rightarrow> user_id \<Rightarrow> string \<Rightarrow> string \<Rightarrow> (oid \<Rightarrow> resume option) \<Rightarrow> application
     \<Rightarrow> result_entry io" where
  "stored_item env userId jobDescription jobDescriptionId resumeMap app =
     io_bind (stored_resume_for env userId resumeMap app) (\<lambda>found.
       case found of
         Inl entry \<Rightarrow> io_return entry
       | Inr storedResume \<Rightarrow>
           stored_process env userId jobDescription jobDescriptionId storedResume)"

fun stored_loop ::
  "env \<Rightarrow> user_id \<Rightarrow> string \<Rightarrow> string \<Rightarrow> (oid \<Rightarrow> resume option) \<Rightarrow> application list
     \<Rightarrow> result_entry list \<Rightarrow> result_entry list io" where
  "stored_loop env userId jobDescription jobDescriptionId resumeMap [] results =
     io_return results"
| "stored_loop env userId jobDescription jobDescriptionId resumeMap (app # rest) results =
     io_bind (stored_item env userId jobDescription jobDescriptionId resumeMap app) (\<lambda>entry.
       stored_loop env userId jobDescription jobDescriptionId resumeMap rest
         (results @ [entry]))"

text \<open>\<^verbatim>\<open>applicationIds.map((id) => new mongoose.Types.ObjectId(id))\<close>: the first id that
  does not cast raises.\<close>

fun cast_all :: "env \<Rightarrow> string list \<Rightarrow> exn + oid list" where
  "cast_all env [] = Inr []"
| "cast_all env (s # rest) =
     (case castObjectId env s of
        Inl e \<Rightarrow> Inl e
      | Inr i \<Rightarrow> (case cast_all env rest of Inl e \<Rightarrow> Inl e | Inr ids \<Rightarrow> Inr (i # ids)))"

text \<open>Lines 91-276: the handler. Both queries cast the ids; the cast is a function of
  the strings, so it is done once here.\<close>

definition post_use_stored_resumes ::
  "env \<Rightarrow> user_id \<Rightarrow> string option \<Rightarrow> string option \<Rightarrow> string list option \<Rightarrow> response io" where
  "post_use_stored_resumes env userId jobDescription jobDescriptionId applicationIds =
     io_catch
       (if \<not> truthy jobDescription \<or> \<not> truthy jobDescriptionId then
          io_return (BadRequest ''Job description and ID are required'')
        else
          (case applicationIds of
             None \<Rightarrow> io_return (BadRequest ''Application IDs are required'')
           | Some idStrings \<Rightarrow>
               if idStrings = [] then io_return (BadRequest ''Application IDs are required'')
               else
                 io_bind (io_lift (cast_all env idStrings)) (\<lambda>ids.
                 io_bind (Application_find_with_resume userId ids) (\<lambda>found.
                   if found = [] then
                     io_return (NotFound ''No applications with resume files found'')
                   else
                     io_bind (Resume_find_by_applications userId ids) (\<lambda>existingResumes.
                     io_bind (stored_loop env userId (string_or jobDescription [])
                                (string_or jobDescriptionId [])
                                (resume_map existingResumes) found []) (\<lambda>results.
                     io_return (BatchOk (length results) results)))))))
       (\<lambda>err. io_return (ServerError (message_or err ''Failed to use stored resumes'')))"

subsection \<open>The manual status handler (lines 496-551)\<close>

text \<open>\<^verbatim>\<open>["shortlisted", "rejected", "low_priority"].includes(status)\<close>\<close>

definition status_of_string :: "string \<Rightarrow> match_status option" where
  "status_of_string s =
     (if s = ''shortlisted'' then Some Shortlisted
      else if s = ''rejected'' then Some Rejected
      else if s = ''low_priority'' then Some LowPriority
      else None)"

definition patch_resume_status :: "env \<Rightarrow> user_id \<Rightarrow> string \<Rightarrow> string \<Rightarrow> response io" where
  "patch_resume_status env userId idString statusString =
     io_catch
       (case status_of_string statusString of
          None \<Rightarrow> io_return (BadRequest ''Invalid status'')
        | Some st \<Rightarrow>
            io_bind (io_lift (castObjectId env idString)) (\<lambda>rid.
            io_bind (Resume_findOneAndUpdate rid userId st) (\<lambda>updated.
              case updated of
                None \<Rightarrow> io_return (NotFound ''Resume not found'')
              | Some doc \<Rightarrow>
                  io_bind (updateApplicationStatus (r_applicationId doc) userId st) (\<lambda>_.
                  io_return (ResumeOk doc)))))
       (\<lambda>err. io_return (ServerError (message_or err ''Failed to update status'')))"

subsection \<open>Notions used to state the properties\<close>

definition entry_fileName :: "result_entry \<Rightarrow> string" where
  "entry_fileName entry = (case entry of Matched e \<Rightarrow> e_fileName e | Failed name msg \<Rightarrow> name)"

text \<open>The exception, if any, with which the next database call rejects.\<close>

definition pending_fault :: "world \<Rightarrow> exn option" where
  "pending_fault w = (case faults w of [] \<Rightarrow> None | f # rest \<Rightarrow> f)"

text \<open>What the block on the application's status does between two worlds, for the
  application \<open>appId\<close> of the user and a resume that got status \<open>st\<close>: when the update
  does not reject and the application exists, a shortlisted resume leaves it at
  interview and a rejected one at rejected; a low-priority resume leaves every
  application as it was, and so does an update that rejects; the resumes are not
  touched.\<close>

definition status_propagated :: "oid \<Rightarrow> user_id \<Rightarrow> match_status \<Rightarrow> world \<Rightarrow> world \<Rightarrow> bool" where
  "status_propagated appId userId st w1 w2 =
     ((st = Shortlisted \<and> pending_fault w1 = None \<and>
         linked_application_status appId userId (applications w1) \<noteq> None \<longrightarrow>
         linked_application_status appId userId (applications w2) = Some Interview) \<and>
      (st = Rejected \<and> pending_fault w1 = None \<and>
         linked_application_status appId userId (applications w1) \<noteq> None \<longrightarrow>
         linked_application_status appId userId (applications w2) = Some ApplicationRejected) \<and>
      (st = LowPriority \<longrightarrow> applications w2 = applications w1) \<and>
      (pending_fault w1 \<noteq> None \<longrightarrow> applications w2 = applications w1) \<and>
      resumes w2 = resumes w1)"

subsection \<open>Concrete collaborators and collections\<close>

definition example_parsed :: parsed_resume where
  "example_parsed =
     \<lparr> skills = [''python'', ''aws''],
       keywords' = [''python'', ''aws'', ''developer''],
       email = ''ann@example.com'',
       experience = [],
       education = [],
       certificates = [] \<rparr>"

text \<open>A match result with twelve matched and eleven missing keywords.\<close>

definition example_result :: "match_status \<Rightarrow> match_result" where
  "example_result st =
     \<lparr> matchScore = (if st = Shortlisted then 17 / 20 else if st = LowPriority then 3 / 5 else 1 / 5),
       matchPercentage = (if st = Shortlisted then 85 else if st = LowPriority then 60 else 20),
       status = st,
       matchedKeywords = [''k01'', ''k02'', ''k03'', ''k04'', ''k05'', ''k06'', ''k07'', ''k08'',
                          ''k09'', ''k10'', ''k11'', ''k12''],
       missingKeywords = [''m01'', ''m02'', ''m03'', ''m04'', ''m05'', ''m06'', ''m07'', ''m08'',
                          ''m09'', ''m10'', ''m11''] \<rparr>"

text \<open>The resume of a text that holds nothing the parser knows.\<close>

definition empty_parsed :: parsed_resume where
  "empty_parsed =
     \<lparr> skills = [],
       keywords' = [],
       email = [],
       experience = [],
       education = [],
       certificates = [] \<rparr>"

text \<open>The match result of a resume without skills.\<close>

definition no_match_result :: match_result where
  "no_match_result =
     \<lparr> matchScore = 0,
       matchPercentage = 0,
       status = Rejected,
       matchedKeywords = [],
       missingKeywords = [''python'', ''developer'', ''wanted''] \<rparr>"

text \<open>Collaborators that parse Ann's text to \<open>example_parsed\<close>, raise on Eve's text and
  parse any other text to \<open>empty_parsed\<close>; that raise an exception without message when
  matching Cy's text and otherwise match a resume with skills with status \<open>st\<close>; a PDF
  is a buffer that starts with \<^verbatim>\<open>%PDF\<close>, and the extraction of its text raises; the one
  file on the disk is Cy's.\<close>

definition example_env :: "match_status \<Rightarrow> env" where
  "example_env st =
     \<lparr> env_parseResume =
         (\<lambda>t. if t = ''Ann, python and aws developer'' then Inr example_parsed
              else if t = ''Eve, a text that does not parse'' then
                Inl (Exn (Some ''Cannot parse resume''))
              else Inr empty_parsed),
       env_matchResumeToJD =
         (\<lambda>kws sks t jd. if t = ''Cy, a text that does not match'' then Inl (Exn None)
                         else if sks = [] then Inr no_match_result
                         else Inr (example_result st)),
       isPDF = (\<lambda>b. take 4 b = ''%PDF''),
       extractTextFromPDF = (\<lambda>b. Inl (Exn (Some ''Invalid PDF structure''))),
       toString = (\<lambda>enc b. b),
       has_replacement_char = (\<lambda>t. False),
       readFileSync =
         (\<lambda>path. if path = ''uploads/resumes/cy.txt'' then Inr ''Cy, a text that does not match''
                  else Inl (Exn (Some ''ENOENT: no such file or directory''))),
       castObjectId = (\<lambda>s. if s = ''1'' then Inr 1 else if s = ''2'' then Inr 2
                           else if s = ''7'' then Inr 7
                           else Inl (Exn (Some ''Cast to ObjectId failed''))),
       oidToString = (\<lambda>i. ''id'') \<rparr>"

definition example_application :: application where
  "example_application =
     \<lparr> a_id = 1,
       a_userId = ''hr1'',
       a_candidateEmail = Some ''ann@example.com'',
       a_status = Applied,
       a_resumeFileName = Str ''ann.pdf'',
       a_resumeFilePath = Some ''uploads/resumes/ann.pdf'' \<rparr>"

text \<open>An application with a file on the disk and no stored resume.\<close>

definition cy_application :: application where
  "cy_application =
     \<lparr> a_id = 2,
       a_userId = ''hr1'',
       a_candidateEmail = Some ''cy@example.com'',
       a_status = Applied,
       a_resumeFileName = Str ''cy.txt'',
       a_resumeFilePath = Some ''uploads/resumes/cy.txt'' \<rparr>"

text \<open>The resume stored when the application was created.\<close>

definition example_resume :: resume where
  "example_resume =
     \<lparr> r_id = 7,
       r_userId = ''hr1'',
       r_jobDescriptionId = ''app-id'',
       r_applicationId = Some 1,
       r_fileName = ''ann.pdf'',
       r_originalText = ''Ann, python and aws developer'',
       r_skills = [''python'', ''aws''],
       r_keywords = [''python'', ''aws'', ''developer''],
       r_email = ''ann@example.com'',
       r_experience = [],
       r_education = [],
       r_certificates = [],
       r_matchScore = 0,
       r_matchPercentage = 0,
       r_status = Rejected,
       r_matchedKeywords = [],
       r_missingKeywords = [] \<rparr>"

definition example_world :: "exn option list \<Rightarrow> world" where
  "example_world fs =
     \<lparr> resumes = [example_resume],
       applications = [example_application],
       next_oid = 8,
       faults = fs,
       calls = [] \<rparr>"

text \<open>The same collections with Cy's application.\<close>

definition stored_world :: "exn option list \<Rightarrow> world" where
  "stored_world fs = (example_world fs)\<lparr>applications := [example_application, cy_application]\<rparr>"

definition text_upload :: upload_file where
  "text_upload = \<lparr> originalname = ''ann.txt'', buffer = ''Ann, python and aws developer'' \<rparr>"

definition broken_pdf_upload :: upload_file where
  "broken_pdf_upload = \<lparr> originalname = ''bob.pdf'', buffer = ''%PDF-1.7 broken'' \<rparr>"

definition unparsed_upload :: upload_file where
  "unparsed_upload = \<lparr> originalname = ''eve.txt'', buffer = ''Eve, a text that does not parse'' \<rparr>"


section \<open>Properties of the engine\<close>

lemma distinct_dedup_first: "distinct (dedup_first toks)"
  by (simp add: dedup_first_def)

lemma set_dedup_first: "set (dedup_first toks) = set toks"
  by (simp add: dedup_first_def)

lemma distinct_rank_keywords: "distinct (rank_keywords toks)"
  by (simp add: rank_keywords_def distinct_dedup_first)

lemma set_rank_keywords: "set (rank_keywords toks) = set toks"
  by (simp add: rank_keywords_def set_dedup_first)

lemma distinct_extract_keywords: "distinct (extract_keywords cfg text)"
  by (simp add: extract_keywords_def distinct_rank_keywords)

lemma status_matchResumeToJD:
  "status (matchResumeToJD cfg w rk rs rt jd) =
     classify (matchPercentage (matchResumeToJD cfg w rk rs rt jd))"
  by (simp add: matchResumeToJD_def Let_def)

lemma matched_matchResumeToJD:
  "matchedKeywords (matchResumeToJD cfg w rk rs rt jd) =
     matched_of rk rs (extract_keywords cfg jd)"
  by (simp add: matchResumeToJD_def Let_def)

lemma missing_matchResumeToJD:
  "missingKeywords (matchResumeToJD cfg w rk rs rt jd) =
     missing_of (matched_of rk rs (extract_keywords cfg jd)) (extract_keywords cfg jd)"
  by (simp add: matchResumeToJD_def Let_def)

lemma percentage_matchResumeToJD:
  "matchPercentage (matchResumeToJD cfg w rk rs rt jd) =
     percentage_of (weighted_score w
        (skillOverlapRatio rs (extract_skills cfg jd))
        (keywordOverlapRatio (matched_of rk rs (extract_keywords cfg jd))
                             (extract_keywords cfg jd)))"
  by (simp add: matchResumeToJD_def Let_def)

lemma missing_of_matched:
  "missing_of (matched_of rk rs jk) jk =
     filter (\<lambda>k. \<not> (k \<in> set rk \<or> k \<in> set rs)) jk"
  by (auto simp: missing_of_def matched_of_def intro: filter_cong)

lemma significant_empty_of_keywords:
  assumes "extract_keywords cfg text = []"
  shows "significant_tokens cfg text = []"
proof -
  have "set (significant_tokens cfg text) = set (extract_keywords cfg text)"
    by (simp add: extract_keywords_def set_rank_keywords)
  with assms show ?thesis by simp
qed

lemma skills_empty_of_keywords:
  assumes "extract_keywords cfg text = []"
  shows "extract_skills cfg text = []"
proof -
  have "significant_tokens cfg text = []"
    using assms by (rule significant_empty_of_keywords)
  then show ?thesis
    by (simp add: extract_skills_def windows_def skill_matches_def list_ex_iff)
qed

lemma extract_keywords_empty_text: "extract_keywords cfg [] = []"
  by (simp add: extract_keywords_def rank_keywords_def dedup_first_def
      significant_tokens_def tokenize_def split_tokens_def)

lemma percentage_of_zero: "percentage_of 0 = 0"
  by (simp add: percentage_of_def clamp_def round_half_up_def)

lemma classify_zero: "classify 0 = Rejected"
  by (simp add: classify_def SHORTLIST_THRESHOLD_def LOW_PRIORITY_THRESHOLD_def)

lemma overlap_ratio_zero: "overlap_ratio 0 b = 0"
  by (simp add: overlap_ratio_def)

lemma overlap_ratio_mono: "a \<le> a' \<Longrightarrow> overlap_ratio a b \<le> overlap_ratio a' b"
  by (simp add: overlap_ratio_def divide_right_mono)

lemma length_filter_mono:
  "(\<And>x. x \<in> set xs \<Longrightarrow> P x \<Longrightarrow> Q x) \<Longrightarrow> length (filter P xs) \<le> length (filter Q xs)"
  by (induction xs) auto

lemma skillOverlapRatio_mono:
  "set rs \<subseteq> set rs' \<Longrightarrow> skillOverlapRatio rs js \<le> skillOverlapRatio rs' js"
  unfolding skillOverlapRatio_def
  by (rule overlap_ratio_mono, rule length_filter_mono) auto

lemma keywordOverlapRatio_mono:
  "set rs \<subseteq> set rs' \<Longrightarrow>
     keywordOverlapRatio (matched_of rk rs jk) jk \<le> keywordOverlapRatio (matched_of rk rs' jk) jk"
  unfolding keywordOverlapRatio_def matched_of_def
  by (rule overlap_ratio_mono, rule length_filter_mono) auto

lemma weighted_score_mono:
  "0 \<le> w_skill w \<Longrightarrow> 0 \<le> w_keyword w \<Longrightarrow> a \<le> a' \<Longrightarrow> b \<le> b' \<Longrightarrow>
     weighted_score w a b \<le> weighted_score w a' b'"
  unfolding weighted_score_def
  by (intro add_mono mult_left_mono)

lemma percentage_of_mono:
  assumes "x \<le> y"
  shows "percentage_of x \<le> percentage_of y"
proof -
  from assms have "round_half_up (x * 100) \<le> round_half_up (y * 100)"
    unfolding round_half_up_def by (intro floor_mono) simp
  then show ?thesis
    by (simp add: percentage_of_def clamp_def)
qed

lemma percentage_no_resume_data:
  "matchPercentage (matchResumeToJD cfg w [] [] rt jd) = 0"
  by (simp add: percentage_matchResumeToJD skillOverlapRatio_def keywordOverlapRatio_def
      matched_of_def overlap_ratio_zero weighted_score_def percentage_of_zero)

lemma percentage_no_job_keywords:
  assumes "extract_keywords cfg jd = []"
  shows "matchPercentage (matchResumeToJD cfg w rk rs rt jd) = 0"
  using assms skills_empty_of_keywords [OF assms]
  by (simp add: percentage_matchResumeToJD skillOverlapRatio_def keywordOverlapRatio_def
      matched_of_def overlap_ratio_zero weighted_score_def percentage_of_zero)

subsection \<open>Matched and missing keywords\<close>

text \<open>
  C2. For every resume and job description, the matched and the missing keywords
  partition the keyword list extracted from the job description: together they hold
  exactly its keywords, neither has a duplicate, they share no keyword, and each is the
  job keyword list, in its order, restricted to the keywords that occur (matched) or do
  not occur (missing) among the resume's keywords or skills.
\<close>

theorem keywords_partition:
  "set (matchedKeywords (matchResumeToJD cfg w rk rs rt jd)) \<union>
     set (missingKeywords (matchResumeToJD cfg w rk rs rt jd)) = set (extract_keywords cfg jd) \<and>
   distinct (extract_keywords cfg jd) \<and>
   distinct (matchedKeywords (matchResumeToJD cfg w rk rs rt jd)) \<and>
   distinct (missingKeywords (matchResumeToJD cfg w rk rs rt jd)) \<and>
   set (matchedKeywords (matchResumeToJD cfg w rk rs rt jd)) \<inter>
     set (missingKeywords (matchResumeToJD cfg w rk rs rt jd)) = {} \<and>
   matchedKeywords (matchResumeToJD cfg w rk rs rt jd) =
     filter (\<lambda>k. k \<in> set rk \<union> set rs) (extract_keywords cfg jd) \<and>
   missingKeywords (matchResumeToJD cfg w rk rs rt jd) =
     filter (\<lambda>k. k \<notin> set rk \<union> set rs) (extract_keywords cfg jd)"
proof -
  let ?jk = "extract_keywords cfg jd"
  have m: "matchedKeywords (matchResumeToJD cfg w rk rs rt jd) =
             filter (\<lambda>k. k \<in> set rk \<union> set rs) ?jk"
    by (simp add: matched_matchResumeToJD matched_of_def)
  have n: "missingKeywords (matchResumeToJD cfg w rk rs rt jd) =
             filter (\<lambda>k. k \<notin> set rk \<union> set rs) ?jk"
    by (simp add: missing_matchResumeToJD missing_of_matched)
  have d: "distinct ?jk"
    by (rule distinct_extract_keywords)
  show ?thesis
    unfolding m n using d by auto
qed

theorem keywords_partition_witness:
  "extract_keywords example_config ''Python developer with AWS and python'' =
     [''python'', ''developer'', ''aws''] \<and>
   matchedKeywords (matchResumeToJD example_config example_weights [''developer''] [''python'']
      ''resume text'' ''Python developer with AWS and python'') = [''python'', ''developer''] \<and>
   missingKeywords (matchResumeToJD example_config example_weights [''developer''] [''python'']
      ''resume text'' ''Python developer with AWS and python'') = [''aws'']"
proof -
  have k: "extract_keywords example_config ''Python developer with AWS and python'' =
     [''python'', ''developer'', ''aws'']"
    by code_simp
  show ?thesis
    using keywords_partition [of example_config example_weights "[''developer'']" "[''python'']"
        "''resume text''" "''Python developer with AWS and python''"]
    unfolding k by simp
qed

subsection \<open>Degenerate inputs\<close>

text \<open>
  C7. If the job description yields no keyword (the empty text, for one), the result has
  percentage 0, status rejected and no matched keyword, whatever the resume is. If the
  resume has neither keywords nor skills, the result has no matched keyword and
  percentage 0, whatever the job description is.
\<close>

theorem degenerate_inputs:
  "(extract_keywords cfg jd = [] \<longrightarrow>
      matchPercentage (matchResumeToJD cfg w rk rs rt jd) = 0 \<and>
      status (matchResumeToJD cfg w rk rs rt jd) = Rejected \<and>
      matchedKeywords (matchResumeToJD cfg w rk rs rt jd) = []) \<and>
   (rk' = [] \<and> rs' = [] \<longrightarrow>
      matchedKeywords (matchResumeToJD cfg w rk' rs' rt jd') = [] \<and>
      matchPercentage (matchResumeToJD cfg w rk' rs' rt jd') = 0)"
proof (intro conjI impI)
  assume e: "extract_keywords cfg jd = []"
  show p: "matchPercentage (matchResumeToJD cfg w rk rs rt jd) = 0"
    using e by (rule percentage_no_job_keywords)
  show "status (matchResumeToJD cfg w rk rs rt jd) = Rejected"
    by (simp add: status_matchResumeToJD p classify_zero)
  show "matchedKeywords (matchResumeToJD cfg w rk rs rt jd) = []"
    by (simp add: matched_matchResumeToJD matched_of_def e)
next
  assume r: "rk' = [] \<and> rs' = []"
  then show "matchedKeywords (matchResumeToJD cfg w rk' rs' rt jd') = []"
    by (simp add: matched_matchResumeToJD matched_of_def)
  from r show "matchPercentage (matchResumeToJD cfg w rk' rs' rt jd') = 0"
    by (simp add: percentage_no_resume_data)
qed

theorem degenerate_inputs_witness:
  "extract_keywords example_config '''' = [] \<and>
   matchPercentage (matchResumeToJD example_config example_weights [''python'', ''aws'']
                      [''python''] ''python and aws'' '''') = 0 \<and>
   status (matchResumeToJD example_config example_weights [''python'', ''aws'']
             [''python''] ''python and aws'' '''') = Rejected \<and>
   matchedKeywords (matchResumeToJD example_config example_weights [''python'', ''aws'']
                      [''python''] ''python and aws'' '''') = [] \<and>
   matchedKeywords (matchResumeToJD example_config example_weights [] [] ''''
                      ''python developer'') = [] \<and>
   matchPercentage (matchResumeToJD example_config example_weights [] [] ''''
                      ''python developer'') = 0"
  using extract_keywords_empty_text [of example_config]
    degenerate_inputs [of example_config "''''" example_weights "[''python'', ''aws'']"
      "[''python'']" "''python and aws''" "[]" "[]" "''python developer''"]
    degenerate_inputs [of example_config "''''" example_weights "[''python'', ''aws'']"
      "[''python'']" "''''" "[]" "[]" "''python developer''"]
  by simp

subsection \<open>Monotonicity in the resume's skills\<close>

text \<open>
  Whether a required skill added to the resume can lower the percentage depends on the
  sign of the weights, which are constants of the missing matcher.ts. With weights that
  are not negative it cannot. With the weights 2 and -1, which have sum 1 and the skill
  weight the larger, it can: the job description "py" requires three skills of
  \<open>overlapping_config\<close> and has the one keyword "py"; a resume with the skill "js" is at
  67 percent, and with the required skill "py" added it is at 33 percent.
\<close>

lemma required_skill_monotone_nonnegative_weights:
  assumes "0 \<le> w_skill w" and "0 \<le> w_keyword w"
    and "s \<in> set (extract_skills cfg jd)"
    and "set rs' = insert s (set rs)"
  shows "matchPercentage (matchResumeToJD cfg w rk rs rt jd) \<le>
         matchPercentage (matchResumeToJD cfg w rk rs' rt jd)"
proof -
  from assms(4) have sub: "set rs \<subseteq> set rs'"
    by auto
  have "weighted_score w (skillOverlapRatio rs (extract_skills cfg jd))
          (keywordOverlapRatio (matched_of rk rs (extract_keywords cfg jd))
             (extract_keywords cfg jd))
        \<le> weighted_score w (skillOverlapRatio rs' (extract_skills cfg jd))
          (keywordOverlapRatio (matched_of rk rs' (extract_keywords cfg jd))
             (extract_keywords cfg jd))"
    using assms(1,2) sub
    by (intro weighted_score_mono skillOverlapRatio_mono keywordOverlapRatio_mono)
  then show ?thesis
    unfolding percentage_matchResumeToJD by (rule percentage_of_mono)
qed

lemma required_skill_lowers_percentage_with_negative_weight:
  "w_skill \<lparr>w_skill = 2, w_keyword = - 1\<rparr> + w_keyword \<lparr>w_skill = 2, w_keyword = - 1\<rparr> = 1 \<and>
   w_keyword \<lparr>w_skill = 2, w_keyword = - 1\<rparr> < w_skill \<lparr>w_skill = 2, w_keyword = - 1\<rparr> \<and>
   extract_skills overlapping_config ''py'' = [''py'', ''js'', ''go''] \<and>
   matchPercentage (matchResumeToJD overlapping_config \<lparr>w_skill = 2, w_keyword = - 1\<rparr> []
                      [''js''] ''resume text'' ''py'') = 67 \<and>
   matchPercentage (matchResumeToJD overlapping_config \<lparr>w_skill = 2, w_keyword = - 1\<rparr> []
                      [''js'', ''py''] ''resume text'' ''py'') = 33"
  by code_simp

subsection \<open>The score under constraints on the weights\<close>

text \<open>
  With weights that are not negative and sum to 1, the skill weight the larger, the
  score lies in [0,1] and the percentage is the rounded score, between 0 and 100. The
  sum and the order alone do not bound the score: the weights 2 and -1 have sum 1, the
  skill weight the larger, and give a resume with the one required skill, named by a
  synonym in the job description, the score 2.
\<close>

lemma matchScore_matchResumeToJD:
  "matchScore (matchResumeToJD cfg w rk rs rt jd) =
     weighted_score w (skillOverlapRatio rs (extract_skills cfg jd))
       (keywordOverlapRatio (matched_of rk rs (extract_keywords cfg jd))
          (extract_keywords cfg jd))"
  by (simp add: matchResumeToJD_def Let_def)

lemma overlap_ratio_unit: "a \<le> b \<Longrightarrow> 0 \<le> overlap_ratio a b \<and> overlap_ratio a b \<le> 1"
  by (auto simp: overlap_ratio_def divide_le_eq_1 max_def)

lemma skillOverlapRatio_unit:
  "0 \<le> skillOverlapRatio rs js \<and> skillOverlapRatio rs js \<le> 1"
  unfolding skillOverlapRatio_def by (rule overlap_ratio_unit) simp

lemma keywordOverlapRatio_unit:
  "0 \<le> keywordOverlapRatio (matched_of rk rs jk) jk \<and>
   keywordOverlapRatio (matched_of rk rs jk) jk \<le> 1"
  unfolding keywordOverlapRatio_def matched_of_def by (rule overlap_ratio_unit) simp

lemma weighted_score_unit:
  assumes "0 \<le> w_skill w" and "0 \<le> w_keyword w" and "w_skill w + w_keyword w = 1"
    and "0 \<le> a \<and> a \<le> 1" and "0 \<le> b \<and> b \<le> 1"
  shows "0 \<le> weighted_score w a b \<and> weighted_score w a b \<le> 1"
proof -
  have "w_skill w * a \<le> w_skill w" and "w_keyword w * b \<le> w_keyword w"
    using assms by (simp_all add: mult_left_le)
  then have "weighted_score w a b \<le> w_skill w + w_keyword w"
    by (simp add: weighted_score_def)
  moreover have "0 \<le> w_skill w * a" and "0 \<le> w_keyword w * b"
    using assms by simp_all
  ultimately show ?thesis
    using assms(3) by (simp add: weighted_score_def)
qed

lemma score_in_unit_interval:
  assumes "0 \<le> w_keyword w" and "w_keyword w < w_skill w" and "w_skill w + w_keyword w = 1"
  shows "0 \<le> matchScore (matchResumeToJD cfg w rk rs rt jd) \<and>
         matchScore (matchResumeToJD cfg w rk rs rt jd) \<le> 1 \<and>
         matchPercentage (matchResumeToJD cfg w rk rs rt jd) =
           round_half_up (matchScore (matchResumeToJD cfg w rk rs rt jd) * 100) \<and>
         0 \<le> matchPercentage (matchResumeToJD cfg w rk rs rt jd) \<and>
         matchPercentage (matchResumeToJD cfg w rk rs rt jd) \<le> 100"
proof -
  let ?s = "matchScore (matchResumeToJD cfg w rk rs rt jd)"
  have w: "0 \<le> w_skill w"
    using assms by simp
  have s: "0 \<le> ?s \<and> ?s \<le> 1"
    unfolding matchScore_matchResumeToJD
    using w assms(1,3) skillOverlapRatio_unit keywordOverlapRatio_unit
    by (rule weighted_score_unit)
  then have "0 \<le> ?s * 100 + 1 / 2" and "?s * 100 + 1 / 2 < 101"
    by simp_all
  then have "0 \<le> round_half_up (?s * 100)" and "round_half_up (?s * 100) \<le> 100"
    unfolding round_half_up_def by (simp_all add: floor_less_iff le_floor_iff)
  moreover have "matchPercentage (matchResumeToJD cfg w rk rs rt jd) = percentage_of ?s"
    by (simp add: matchResumeToJD_def Let_def)
  ultimately show ?thesis
    using s by (simp add: percentage_of_def clamp_def)
qed

lemma score_exceeds_one_with_negative_weight:
  "w_skill \<lparr>w_skill = 2, w_keyword = - 1\<rparr> + w_keyword \<lparr>w_skill = 2, w_keyword = - 1\<rparr> = 1 \<and>
   w_keyword \<lparr>w_skill = 2, w_keyword = - 1\<rparr> < w_skill \<lparr>w_skill = 2, w_keyword = - 1\<rparr> \<and>
   matchScore (matchResumeToJD example_config \<lparr>w_skill = 2, w_keyword = - 1\<rparr> []
                 [''python''] ''resume text'' ''py'') = 2"
  by code_simp

section \<open>Properties of the routes\<close>

subsection \<open>Computations\<close>

lemma io_return_apply: "io_return x w = (Inr x, w)"
  by (simp add: io_return_def)

lemma io_bind_Inr: "m w = (Inr x, w1) \<Longrightarrow> io_bind m f w = f x w1"
  by (simp add: io_bind_def)


lemma io_bind_eq_InrD:
  assumes "io_bind m f w = (Inr y, w')"
  obtains x w1 where "m w = (Inr x, w1)" and "f x w1 = (Inr y, w')"
  using assms by (auto simp: io_bind_def split: prod.splits sum.splits)

lemma io_catch_Inr: "m w = (Inr x, w1) \<Longrightarrow> io_catch m h w = (Inr x, w1)"
  by (simp add: io_catch_def)

lemma io_catch_Inl: "m w = (Inl e, w1) \<Longrightarrow> io_catch m h w = h e w1"
  by (simp add: io_catch_def)

subsection \<open>Database calls\<close>

lemma db_InrE:
  assumes "db f w = (Inr x, w1)"
  obtains w0 where "f w0 = (x, w1)" and "resumes w0 = resumes w"
    and "applications w0 = applications w" and "next_oid w0 = next_oid w"
  using assms
  by (auto simp: db_def split: list.splits option.splits prod.splits)

lemma mem_update_first:
  "list_ex p xs \<Longrightarrow> y \<in> set (update_first p (\<lambda>_. y) xs)"
  by (induction xs) auto

lemma Resume_save_stored:
  assumes "Resume_save doc w = (Inr x, w1)"
  shows "doc \<in> set (resumes w1)"
proof -
  from assms obtain found w2 where
    d: "db (\<lambda>w. (list_ex (\<lambda>r. r_id r = r_id doc) (resumes w),
                 w\<lparr>resumes := update_first (\<lambda>r. r_id r = r_id doc) (\<lambda>_. doc) (resumes w)\<rparr>)) w
        = (Inr found, w2)"
    and k: "(if found then io_return () else io_throw (Exn (Some ''No document found for query''))) w2
        = (Inr x, w1)"
    unfolding Resume_save_def by (erule io_bind_eq_InrD)
  from k have found: found and w: "w1 = w2"
    by (auto simp: io_return_def io_throw_def split: if_splits)
  from d obtain w0 where
    "(list_ex (\<lambda>r. r_id r = r_id doc) (resumes w0),
      w0\<lparr>resumes := update_first (\<lambda>r. r_id r = r_id doc) (\<lambda>_. doc) (resumes w0)\<rparr>) = (found, w2)"
    by (rule db_InrE)
  with found have "list_ex (\<lambda>r. r_id r = r_id doc) (resumes w0)"
    and "resumes w2 = update_first (\<lambda>r. r_id r = r_id doc) (\<lambda>_. doc) (resumes w0)"
    by auto
  then show ?thesis
    using w by (simp add: mem_update_first)
qed

lemma Resume_create_stored:
  assumes "Resume_create n w = (Inr doc, w1)"
  shows "doc \<in> set (resumes w1) \<and> (\<exists>i. doc = resume_of_new i n)"
proof -
  from assms obtain w0 where
    "(let doc = resume_of_new (next_oid w0) n
      in (doc, w0\<lparr>resumes := resumes w0 @ [doc], next_oid := Suc (next_oid w0)\<rparr>)) = (doc, w1)"
    unfolding Resume_create_def by (rule db_InrE)
  then show ?thesis
    by (auto simp: Let_def)
qed

text \<open>
  The query for the applications with a resume file selects an application whose file
  name is stored as \<^verbatim>\<open>null\<close>, and neither one without the field nor one with the empty
  name. The lower-case form of an address, with a letter outside ASCII and with the
  multiplication sign.
\<close>

lemma find_with_resume_on_file_names:
  "fst (Application_find_with_resume ''hr1'' [1]
          ((example_world [])\<lparr>applications := [example_application\<lparr>a_resumeFileName := Null\<rparr>]\<rparr>)) =
     Inr [example_application\<lparr>a_resumeFileName := Null\<rparr>] \<and>
   fst (Application_find_with_resume ''hr1'' [1]
          ((example_world [])\<lparr>applications := [example_application\<lparr>a_resumeFileName := Missing\<rparr>]\<rparr>)) =
     Inr [] \<and>
   fst (Application_find_with_resume ''hr1'' [1]
          ((example_world [])\<lparr>applications := [example_application\<lparr>a_resumeFileName := Str []\<rparr>]\<rparr>)) =
     Inr []"
  by code_simp

lemma toLowerCase_on_addresses:
  "toLowerCase ''Ann@Example.COM'' = ''ann@example.com'' \<and>
   toLowerCase [CHR 0xC9, CHR ''v'', CHR ''A''] = [CHR 0xE9, CHR ''v'', CHR ''a''] \<and>
   toLowerCase [CHR 0xD7, CHR 0xDE, CHR 0xDF] = [CHR 0xD7, CHR 0xFE, CHR 0xDF]"
  by code_simp

subsection \<open>The block on the application's status\<close>

lemma find_update_first:
  assumes "\<And>x. p x \<Longrightarrow> p (f x)"
  shows "find p (update_first p f xs) = map_option f (find p xs)"
  using assms by (induction xs) auto

lemma linked_status_after_update:
  "linked_application_status a u
     (update_first (\<lambda>x. a_id x = a \<and> a_userId x = u) (\<lambda>x. x\<lparr>a_status := s\<rparr>) apps) =
   map_option (\<lambda>_. s) (linked_application_status a u apps)"
  by (simp add: linked_application_status_def find_update_first option.map_comp comp_def)

lemma update_application_none:
  "updateApplicationStatus None u st w = (Inr (), w)"
  by (simp add: updateApplicationStatus_def io_return_apply)

lemma update_application_some:
  "\<exists>w'. updateApplicationStatus (Some a) u st w = (Inr (), w') \<and>
        status_propagated a u st w w'"
proof (cases "applicationStatus_for st")
  case None
  then have "st = LowPriority"
    by (cases st) (simp_all add: applicationStatus_for_def)
  with None show ?thesis
    by (simp add: updateApplicationStatus_def io_catch_def io_return_apply
        status_propagated_def)
next
  case (Some s)
  then have st: "st \<noteq> LowPriority"
    and s: "s = (if st = Shortlisted then Interview else ApplicationRejected)"
    by (cases st; simp add: applicationStatus_for_def)+
  show ?thesis
  proof (cases "faults w")
    case Nil
    with Some s st show ?thesis
      by (cases st)
        (simp_all add: updateApplicationStatus_def io_catch_def io_return_apply
          Application_findOneAndUpdate_def db_def status_propagated_def pending_fault_def
          linked_status_after_update)
  next
    case (Cons f rest)
    show ?thesis
    proof (cases f)
      case None
      with Cons Some s st show ?thesis
        by (cases st)
          (simp_all add: updateApplicationStatus_def io_catch_def io_return_apply
            Application_findOneAndUpdate_def db_def status_propagated_def pending_fault_def
            linked_status_after_update)
    next
      case (Some e)
      with Cons \<open>applicationStatus_for st = Some s\<close> show ?thesis
        by (simp add: updateApplicationStatus_def io_catch_def io_return_apply
            Application_findOneAndUpdate_def db_def status_propagated_def pending_fault_def)
    qed
  qed
qed


lemma update_application_fst: "fst (updateApplicationStatus x u st w) = Inr ()"
proof (cases x)
  case None
  then show ?thesis by (simp add: update_application_none)
next
  case (Some a)
  then show ?thesis
    using update_application_some [of a u st w] by auto
qed

lemma update_application_resumes:
  "resumes (snd (updateApplicationStatus x u st w)) = resumes w"
proof (cases x)
  case None
  then show ?thesis by (simp add: update_application_none)
next
  case (Some a)
  then show ?thesis
    using update_application_some [of a u st w] by (auto simp: status_propagated_def)
qed

lemma update_application_propagated:
  "status_propagated a u st w (snd (updateApplicationStatus (Some a) u st w))"
  using update_application_some [of a u st w] by auto

lemma update_application_run:
  "updateApplicationStatus x u st w = (Inr (), snd (updateApplicationStatus x u st w))"
  using update_application_fst [of x u st w] by (simp add: prod_eq_iff)

subsection \<open>Minimum length of the inputs\<close>

text \<open>
  C4. The single-match handler answers "Invalid input" and leaves the world as it was,
  so neither the parser nor the matcher is called, when the resume text or the job
  description is shorter than 10 characters (or is missing); when both have at least 10
  characters it calls the parser on the resume text and then the matcher, and answers
  with the match. The bulk handler answers with a 400 and leaves the world as it was
  when the job description is shorter than 10 characters; so does the bulk route as a
  whole for up to 50 files, and for more the upload middleware has raised before.
\<close>

theorem minimum_length_enforced:
  "(length rt < 10 \<or> length jd < 10 \<longrightarrow>
      post_match env (Some rt) (Some jd) w = (Inr (BadRequest ''Invalid input''), w)) \<and>
   post_match env None (Some jd) w = (Inr (BadRequest ''Invalid input''), w) \<and>
   post_match env (Some rt) None w = (Inr (BadRequest ''Invalid input''), w) \<and>
   (10 \<le> length rt \<and> 10 \<le> length jd \<longrightarrow>
      post_match env (Some rt) (Some jd) w =
        (case env_parseResume env rt of
           Inl err \<Rightarrow> (Inl err, w\<lparr>calls := calls w @ [CallParseResume rt]\<rparr>)
         | Inr pr \<Rightarrow>
             (case env_matchResumeToJD env (keywords' pr) (skills pr) rt jd of
                Inl err \<Rightarrow>
                  (Inl err, w\<lparr>calls := calls w @
                     [CallParseResume rt,
                      CallMatchResumeToJD (keywords' pr) (skills pr) rt jd]\<rparr>)
              | Inr mr \<Rightarrow>
                  (Inr (SingleOk
                     \<lparr> score = matchScore mr,
                       p_matchPercentage = matchPercentage mr,
                       decision = status mr,
                       threshold = 80,
                       p_matchedKeywords = matchedKeywords mr,
                       p_missingKeywords = missingKeywords mr,
                       parsedResume = pr \<rparr>),
                   w\<lparr>calls := calls w @
                     [CallParseResume rt,
                      CallMatchResumeToJD (keywords' pr) (skills pr) rt jd]\<rparr>)))) \<and>
   (length jd < 10 \<longrightarrow>
      post_bulk env u files (Some jd) jid w =
        (Inr (BadRequest (if files = [] then ''No files uploaded'' else ''Invalid input'')), w)) \<and>
   (length jd < 10 \<longrightarrow>
      bulk_route env u files (Some jd) jid w =
        (if 50 < length files then (Inl (Exn (Some ''Unexpected field'')), w)
         else (Inr (BadRequest (if files = [] then ''No files uploaded''
                                else ''Invalid input'')), w)))"
proof (intro conjI impI)
  assume "length rt < 10 \<or> length jd < 10"
  then have "payloadSchema (Some rt) (Some jd) = None"
    by (auto simp: payloadSchema_def)
  then show "post_match env (Some rt) (Some jd) w = (Inr (BadRequest ''Invalid input''), w)"
    by (simp add: post_match_def io_return_def)
next
  show "post_match env None (Some jd) w = (Inr (BadRequest ''Invalid input''), w)"
    by (simp add: post_match_def payloadSchema_def io_return_def)
next
  show "post_match env (Some rt) None w = (Inr (BadRequest ''Invalid input''), w)"
    by (simp add: post_match_def payloadSchema_def io_return_def)
next
  assume "10 \<le> length rt \<and> 10 \<le> length jd"
  then have "payloadSchema (Some rt) (Some jd) = Some (rt, jd)"
    by (simp add: payloadSchema_def)
  then show "post_match env (Some rt) (Some jd) w =
        (case env_parseResume env rt of
           Inl err \<Rightarrow> (Inl err, w\<lparr>calls := calls w @ [CallParseResume rt]\<rparr>)
         | Inr pr \<Rightarrow>
             (case env_matchResumeToJD env (keywords' pr) (skills pr) rt jd of
                Inl err \<Rightarrow>
                  (Inl err, w\<lparr>calls := calls w @
                     [CallParseResume rt,
                      CallMatchResumeToJD (keywords' pr) (skills pr) rt jd]\<rparr>)
              | Inr mr \<Rightarrow>
                  (Inr (SingleOk
                     \<lparr> score = matchScore mr,
                       p_matchPercentage = matchPercentage mr,
                       decision = status mr,
                       threshold = 80,
                       p_matchedKeywords = matchedKeywords mr,
                       p_missingKeywords = missingKeywords mr,
                       parsedResume = pr \<rparr>),
                   w\<lparr>calls := calls w @
                     [CallParseResume rt,
                      CallMatchResumeToJD (keywords' pr) (skills pr) rt jd]\<rparr>)))"
    by (simp add: post_match_def io_bind_def io_return_def call_parseResume_def
        call_matchResumeToJD_def split: sum.splits)
next
  assume "length jd < 10"
  then have "bulkSchema (Some jd) jid = None"
    by (simp add: bulkSchema_def split: option.splits)
  then show "post_bulk env u files (Some jd) jid w =
        (Inr (BadRequest (if files = [] then ''No files uploaded'' else ''Invalid input'')), w)"
    by (simp add: post_bulk_def io_catch_def io_return_def)
next
  assume "length jd < 10"
  then have "bulkSchema (Some jd) jid = None"
    by (simp add: bulkSchema_def split: option.splits)
  then show "bulk_route env u files (Some jd) jid w =
        (if 50 < length files then (Inl (Exn (Some ''Unexpected field'')), w)
         else (Inr (BadRequest (if files = [] then ''No files uploaded''
                                else ''Invalid input'')), w))"
    by (simp add: bulk_route_def upload_array_def io_bind_def io_throw_def post_bulk_def
        io_catch_def io_return_def)
qed

theorem minimum_length_enforced_witness:
  "length ''too short'' < (10::nat) \<and>
   (10::nat) \<le> length ''Ann, python and aws developer'' \<and>
   (10::nat) \<le> length ''python developer wanted'' \<and>
   post_match (example_env Shortlisted) (Some ''too short'') (Some ''python developer wanted'')
       (example_world []) = (Inr (BadRequest ''Invalid input''), example_world []) \<and>
   post_match (example_env Shortlisted) (Some ''Ann, python and aws developer'') (Some ''too short'')
       (example_world []) = (Inr (BadRequest ''Invalid input''), example_world []) \<and>
   calls (snd (post_match (example_env Shortlisted) (Some ''Ann, python and aws developer'')
       (Some ''python developer wanted'') (example_world []))) =
     [CallParseResume ''Ann, python and aws developer'',
      CallMatchResumeToJD [''python'', ''aws'', ''developer''] [''python'', ''aws'']
        ''Ann, python and aws developer'' ''python developer wanted''] \<and>
   post_bulk (example_env Shortlisted) ''hr1'' [text_upload] (Some ''too short'') (Some ''jd1'')
       (example_world []) = (Inr (BadRequest ''Invalid input''), example_world []) \<and>
   bulk_route (example_env Shortlisted) ''hr1'' [text_upload] (Some ''too short'') (Some ''jd1'')
       (example_world []) = (Inr (BadRequest ''Invalid input''), example_world [])"
proof -
  have a: "length ''too short'' < (10::nat)"
    and b: "(10::nat) \<le> length ''Ann, python and aws developer''"
    and c: "(10::nat) \<le> length ''python developer wanted''"
    by simp_all
  have f: "[text_upload] \<noteq> []"
    by simp
  note t = minimum_length_enforced
  from a have 1: "post_match (example_env Shortlisted) (Some ''too short'')
       (Some ''python developer wanted'') (example_world []) =
       (Inr (BadRequest ''Invalid input''), example_world [])"
    using t [of "''too short''" "''python developer wanted''" "example_env Shortlisted"
        "example_world []"]
    by blast
  from a have 2: "post_match (example_env Shortlisted) (Some ''Ann, python and aws developer'')
       (Some ''too short'') (example_world []) =
       (Inr (BadRequest ''Invalid input''), example_world [])"
    using t [of "''Ann, python and aws developer''" "''too short''" "example_env Shortlisted"
        "example_world []"]
    by blast
  from b c have 3: "calls (snd (post_match (example_env Shortlisted)
       (Some ''Ann, python and aws developer'')
       (Some ''python developer wanted'') (example_world []))) =
     [CallParseResume ''Ann, python and aws developer'',
      CallMatchResumeToJD [''python'', ''aws'', ''developer''] [''python'', ''aws'']
        ''Ann, python and aws developer'' ''python developer wanted'']"
    using t [of "''Ann, python and aws developer''" "''python developer wanted''"
        "example_env Shortlisted" "example_world []"]
    by (simp add: example_env_def example_world_def example_parsed_def)
  from a f have 4: "post_bulk (example_env Shortlisted) ''hr1'' [text_upload] (Some ''too short'')
       (Some ''jd1'') (example_world []) = (Inr (BadRequest ''Invalid input''), example_world [])"
    using t [of _ "''too short''" "example_env Shortlisted" "example_world []" "''hr1''"
        "[text_upload]" "Some ''jd1''"]
    by simp
  from a f have 5: "bulk_route (example_env Shortlisted) ''hr1'' [text_upload] (Some ''too short'')
       (Some ''jd1'') (example_world []) = (Inr (BadRequest ''Invalid input''), example_world [])"
    using t [of _ "''too short''" "example_env Shortlisted" "example_world []" "''hr1''"
        "[text_upload]" "Some ''jd1''"]
    by simp
  from a b c 1 2 3 4 5 show ?thesis
    by blast
qed

subsection \<open>The handlers up to the stored resume\<close>

lemma bulk_store_result:
  assumes "bulk_store u jid upload txt pr mr link w = (Inr doc, w1)"
  shows "doc \<in> set (resumes w1) \<and> r_status doc = status mr \<and>
         r_matchedKeywords doc = matchedKeywords mr \<and>
         r_missingKeywords doc = missingKeywords mr"
proof -
  obtain applicationId existing where link: "link = (applicationId, existing)"
    by (cases link) auto
  let ?n = "bulk_new_resume u jid applicationId upload txt pr mr"
  have create: "doc \<in> set (resumes w1) \<and> r_status doc = status mr \<and>
         r_matchedKeywords doc = matchedKeywords mr \<and>
         r_missingKeywords doc = missingKeywords mr"
    if "Resume_create ?n w = (Inr doc, w1)"
    using Resume_create_stored [OF that]
    by (auto simp: resume_of_new_def bulk_new_resume_def)
  show ?thesis
  proof (cases existing)
    case None
    with assms link show ?thesis
      by (intro create) (simp add: bulk_store_def)
  next
    case (Some r)
    show ?thesis
    proof (cases "r_applicationId r")
      case None
      with assms link Some show ?thesis
        by (intro create) (simp add: bulk_store_def)
    next
      case (Some a)
      let ?d = "bulk_updated_resume jid txt pr mr r"
      from assms link \<open>existing = Some r\<close> Some
      have "io_bind (Resume_save ?d) (\<lambda>_. io_return ?d) w = (Inr doc, w1)"
        by (simp add: bulk_store_def Let_def)
      then obtain x w2 where s: "Resume_save ?d w = (Inr x, w2)"
        and "io_return ?d w2 = (Inr doc, w1)"
        by (rule io_bind_eq_InrD)
      then have "doc = ?d" and "w1 = w2"
        by (simp_all add: io_return_def)
      with Resume_save_stored [OF s] show ?thesis
        by (simp add: bulk_updated_resume_def)
    qed
  qed
qed

lemma call_parseResume_result:
  "call_parseResume env t w = (Inr pr, w1) \<Longrightarrow> env_parseResume env t = Inr pr"
  by (simp add: call_parseResume_def)

lemma call_matchResumeToJD_result:
  "call_matchResumeToJD env k s t jd w = (Inr mr, w1) \<Longrightarrow> env_matchResumeToJD env k s t jd = Inr mr"
  by (simp add: call_matchResumeToJD_def)

lemma bulk_prepare_result:
  assumes "bulk_prepare env u jd jid upload w = (Inr (pr, mr, doc), w1)"
  shows "env_parseResume env (readFileAsText env upload) = Inr pr \<and>
         env_matchResumeToJD env (keywords' pr) (skills pr) (readFileAsText env upload) jd = Inr mr \<and>
         doc \<in> set (resumes w1) \<and> r_status doc = status mr \<and>
         r_matchedKeywords doc = matchedKeywords mr \<and>
         r_missingKeywords doc = missingKeywords mr"
proof -
  let ?t = "readFileAsText env upload"
  from assms obtain pr' wa where p: "call_parseResume env ?t w = (Inr pr', wa)"
    and 1: "io_bind (call_matchResumeToJD env (keywords' pr') (skills pr') ?t jd) (\<lambda>mr.
         io_bind (bulk_link u pr') (\<lambda>link.
         io_bind (bulk_store u jid upload ?t pr' mr link) (\<lambda>doc.
         io_return (pr', mr, doc)))) wa = (Inr (pr, mr, doc), w1)"
    unfolding bulk_prepare_def Let_def by (erule io_bind_eq_InrD)
  from 1 obtain mr' wb where m: "call_matchResumeToJD env (keywords' pr') (skills pr') ?t jd wa = (Inr mr', wb)"
    and 2: "io_bind (bulk_link u pr') (\<lambda>link.
         io_bind (bulk_store u jid upload ?t pr' mr' link) (\<lambda>doc.
         io_return (pr', mr', doc))) wb = (Inr (pr, mr, doc), w1)"
    by (erule io_bind_eq_InrD)
  from 2 obtain link wc where "bulk_link u pr' wb = (Inr link, wc)"
    and 3: "io_bind (bulk_store u jid upload ?t pr' mr' link) (\<lambda>doc.
         io_return (pr', mr', doc)) wc = (Inr (pr, mr, doc), w1)"
    by (erule io_bind_eq_InrD)
  from 3 obtain doc' wd where s: "bulk_store u jid upload ?t pr' mr' link wc = (Inr doc', wd)"
    and 4: "io_return (pr', mr', doc') wd = (Inr (pr, mr, doc), w1)"
    by (erule io_bind_eq_InrD)
  from 4 have eq: "pr' = pr" "mr' = mr" "doc' = doc" "wd = w1"
    by (simp_all add: io_return_def)
  from p m s show ?thesis
    unfolding eq
    by (auto dest: call_parseResume_result call_matchResumeToJD_result bulk_store_result)
qed


lemma stored_prepare_result:
  assumes "stored_prepare env jd jid sr w = (Inr (mr, doc), w1)"
  shows "env_matchResumeToJD env (r_keywords sr) (r_skills sr) (r_originalText sr) jd = Inr mr \<and>
         doc = stored_updated_resume jid mr sr \<and> doc \<in> set (resumes w1)"
proof -
  from assms obtain mr' wa where
    m: "call_matchResumeToJD env (r_keywords sr) (r_skills sr) (r_originalText sr) jd w = (Inr mr', wa)"
    and 1: "io_bind (Resume_save (stored_updated_resume jid mr' sr))
              (\<lambda>_. io_return (mr', stored_updated_resume jid mr' sr)) wa = (Inr (mr, doc), w1)"
    unfolding stored_prepare_def Let_def by (erule io_bind_eq_InrD)
  from 1 obtain x wb where s: "Resume_save (stored_updated_resume jid mr' sr) wa = (Inr x, wb)"
    and 2: "io_return (mr', stored_updated_resume jid mr' sr) wb = (Inr (mr, doc), w1)"
    by (erule io_bind_eq_InrD)
  from 2 have eq: "mr' = mr" "doc = stored_updated_resume jid mr sr" "wb = w1"
    by (auto simp: io_return_def)
  from m s show ?thesis
    unfolding eq by (auto dest: call_matchResumeToJD_result Resume_save_stored)
qed

lemma bulk_finish_run:
  "bulk_finish u upload (pr, mr, doc) w1 =
     (Inr (Matched (bulk_entry upload pr mr doc)),
      snd (updateApplicationStatus (r_applicationId doc) u (status mr) w1))"
  by (simp add: bulk_finish_def io_bind_Inr [OF update_application_run] io_return_def)

lemma bulk_item_after_prepare:
  assumes "bulk_prepare env u jd jid upload w = (Inr (pr, mr, doc), w1)"
  shows "bulk_item env u jd jid upload w =
           (Inr (Matched (bulk_entry upload pr mr doc)),
            snd (updateApplicationStatus (r_applicationId doc) u (status mr) w1))"
  using assms by (simp add: bulk_item_def io_catch_def io_bind_def bulk_finish_run)

lemma stored_finish_run:
  "stored_finish u (mr, doc) w1 =
     (Inr (Matched (stored_entry mr doc)),
      snd (updateApplicationStatus (r_applicationId doc) u (status mr) w1))"
  by (simp add: stored_finish_def io_bind_Inr [OF update_application_run] io_return_def)

lemma stored_process_after_prepare:
  assumes "stored_prepare env jd jid sr w = (Inr (mr, doc), w1)"
  shows "stored_process env u jd jid sr w =
           (Inr (Matched (stored_entry mr doc)),
            snd (updateApplicationStatus (r_applicationId doc) u (status mr) w1))"
  using assms by (simp add: stored_process_def io_catch_def io_bind_def stored_finish_run)

lemma Resume_findOneAndUpdate_status:
  assumes "Resume_findOneAndUpdate rid u st w = (Inr (Some doc), w1)"
  shows "r_status doc = st"
proof -
  from assms obtain w0 where
    "(map_option (\<lambda>r. r\<lparr>r_status := st\<rparr>)
        (find (\<lambda>r. r_id r = rid \<and> r_userId r = u) (resumes w0)),
      w0\<lparr>resumes := update_first (\<lambda>r. r_id r = rid \<and> r_userId r = u)
                                 (\<lambda>r. r\<lparr>r_status := st\<rparr>) (resumes w0)\<rparr>) = (Some doc, w1)"
    unfolding Resume_findOneAndUpdate_def by (rule db_InrE)
  then show ?thesis by auto
qed

lemma patch_after_update:
  assumes "status_of_string s = Some st" and "castObjectId env idString = Inr rid"
    and "Resume_findOneAndUpdate rid u st w = (Inr (Some doc), w1)"
  shows "patch_resume_status env u idString s w =
           (Inr (ResumeOk doc), snd (updateApplicationStatus (r_applicationId doc) u st w1))"
proof -
  let ?after = "\<lambda>updated. case updated of
                  None \<Rightarrow> io_return (NotFound ''Resume not found'')
                | Some d \<Rightarrow>
                    io_bind (updateApplicationStatus (r_applicationId d) u st) (\<lambda>_.
                    io_return (ResumeOk d))"
  let ?w2 = "snd (updateApplicationStatus (r_applicationId doc) u st w1)"
  have "?after (Some doc) w1 = (Inr (ResumeOk doc), ?w2)"
    by (simp add: io_bind_Inr [OF update_application_run] io_return_def)
  with assms(3) have "io_bind (Resume_findOneAndUpdate rid u st) ?after w = (Inr (ResumeOk doc), ?w2)"
    by (simp add: io_bind_Inr)
  with assms(2) have
    "io_bind (io_lift (castObjectId env idString))
       (\<lambda>rid. io_bind (Resume_findOneAndUpdate rid u st) ?after) w = (Inr (ResumeOk doc), ?w2)"
    by (simp add: io_bind_def io_lift_def)
  then show ?thesis
    using assms(1) by (simp add: patch_resume_status_def io_catch_def)
qed

subsection \<open>The entries of a batch\<close>

lemma bulk_finish_result:
  assumes "bulk_finish u upload p w = (Inr entry, w')"
  shows "\<exists>(pr::parsed_resume) mr doc. p = (pr, mr, doc) \<and> entry = Matched (bulk_entry upload pr mr doc) \<and>
           resumes w' = resumes w"
proof -
  obtain pr mr doc where p: "p = (pr, mr, doc)"
    by (cases p) auto
  from assms have "entry = Matched (bulk_entry upload pr mr doc)"
    and "w' = snd (updateApplicationStatus (r_applicationId doc) u (status mr) w)"
    unfolding p bulk_finish_run by simp_all
  with p show ?thesis
    by (simp add: update_application_resumes)
qed

lemma bulk_item_cases:
  "bulk_item env u jd jid upload w =
     (case io_bind (bulk_prepare env u jd jid upload) (bulk_finish u upload) w of
        (Inl err, w') \<Rightarrow>
          (Inr (Failed (originalname upload) (message_or err ''Failed to process resume'')), w')
      | (Inr entry, w') \<Rightarrow> (Inr entry, w'))"
  by (simp add: bulk_item_def io_catch_def io_return_apply split: prod.splits sum.splits)

lemma bulk_item_matched:
  assumes "bulk_item env u jd jid upload w = (Inr (Matched e), w2)"
  shows "\<exists>pr mr doc w1. bulk_prepare env u jd jid upload w = (Inr (pr, mr, doc), w1) \<and>
           e = bulk_entry upload pr mr doc \<and> resumes w2 = resumes w1"
proof -
  from assms have "io_bind (bulk_prepare env u jd jid upload) (bulk_finish u upload) w
      = (Inr (Matched e), w2)"
    by (auto simp: bulk_item_cases split: prod.splits sum.splits)
  then obtain p w1 where 1: "bulk_prepare env u jd jid upload w = (Inr p, w1)"
    and 2: "bulk_finish u upload p w1 = (Inr (Matched e), w2)"
    by (erule io_bind_eq_InrD)
  from bulk_finish_result [OF 2] 1 show ?thesis
    by auto
qed

lemma stored_process_matched:
  assumes "stored_process env u jd jid sr w = (Inr (Matched e), w2)"
  shows "\<exists>mr doc w1. stored_prepare env jd jid sr w = (Inr (mr, doc), w1) \<and>
           e = stored_entry mr doc \<and> resumes w2 = resumes w1"
proof -
  from assms have "io_bind (stored_prepare env jd jid sr) (stored_finish u) w
      = (Inr (Matched e), w2)"
    by (auto simp: stored_process_def io_catch_def io_return_def split: prod.splits sum.splits)
  then obtain p w1 where 1: "stored_prepare env jd jid sr w = (Inr p, w1)"
    and 2: "stored_finish u p w1 = (Inr (Matched e), w2)"
    by (erule io_bind_eq_InrD)
  obtain mr doc where p: "p = (mr, doc)"
    by (cases p) auto
  from 2 have "e = stored_entry mr doc"
    and "w2 = snd (updateApplicationStatus (r_applicationId doc) u (status mr) w1)"
    unfolding p stored_finish_run by simp_all
  with 1 p show ?thesis
    by (simp add: update_application_resumes)
qed

lemma stored_resume_for_entry:
  assumes "stored_resume_for env u m app w = (Inr (Inl entry), w1)"
  shows "\<exists>name msg. entry = Failed name msg"
proof (cases "m (a_id app)")
  case (Some sr)
  with assms show ?thesis
    by (simp add: stored_resume_for_def io_return_def)
next
  case None
  show ?thesis
  proof (cases "a_resumeFilePath app")
    case n: None
    with None assms show ?thesis
      by (auto simp: stored_resume_for_def io_return_def)
  next
    case (Some path)
    show ?thesis
    proof (cases "path = []")
      case True
      with None Some assms show ?thesis
        by (auto simp: stored_resume_for_def io_return_def)
    next
      case False
      let ?body = "io_bind (io_lift (readFileSync env path)) (\<lambda>fileBuffer.
                    io_bind (if isPDF env fileBuffer
                             then io_lift (extractTextFromPDF env fileBuffer)
                             else io_return (toString env Utf8 fileBuffer)) (\<lambda>resumeText.
                    if 10 < length resumeText then
                      io_bind (call_parseResume env resumeText) (\<lambda>pr.
                      io_bind (Resume_create (stored_new_resume env u app resumeText pr))
                        (\<lambda>created. io_return (Inr created)))
                    else
                      io_return (Inl (Failed (string_or (read_field (a_resumeFileName app)) ''resume'')
                                        ''Could not extract text from resume file''))))"
      from None Some False assms have c:
        "io_catch ?body
           (\<lambda>err. io_return
              (Inl (Failed (string_or (read_field (a_resumeFileName app)) ''resume'')
                      (''Failed to process resume file: '' @ message_or err ''Unknown error'')))) w
         = (Inr (Inl entry), w1)"
        by (simp add: stored_resume_for_def)
      show ?thesis
      proof (cases "?body w")
        case (Pair r w')
        show ?thesis
        proof (cases r)
          case (Inl err)
          with Pair c show ?thesis
            by (auto simp: io_catch_def io_return_def)
        next
          case (Inr v)
          with Pair c have b: "?body w = (Inr (Inl entry), w1)"
            by (simp add: io_catch_def)
          then obtain fileBuffer wa where
            "io_bind (if isPDF env fileBuffer
                             then io_lift (extractTextFromPDF env fileBuffer)
                             else io_return (toString env Utf8 fileBuffer)) (\<lambda>resumeText.
                    if 10 < length resumeText then
                      io_bind (call_parseResume env resumeText) (\<lambda>pr.
                      io_bind (Resume_create (stored_new_resume env u app resumeText pr))
                        (\<lambda>created. io_return (Inr created)))
                    else
                      io_return (Inl (Failed (string_or (read_field (a_resumeFileName app)) ''resume'')
                                        ''Could not extract text from resume file''))) wa
              = (Inr (Inl entry), w1)"
            by (auto elim: io_bind_eq_InrD)
          then obtain resumeText wb where t:
            "(if 10 < length resumeText then
                      io_bind (call_parseResume env resumeText) (\<lambda>pr.
                      io_bind (Resume_create (stored_new_resume env u app resumeText pr))
                        (\<lambda>created. io_return (Inr created)))
                    else
                      io_return (Inl (Failed (string_or (read_field (a_resumeFileName app)) ''resume'')
                                        ''Could not extract text from resume file''))) wb
              = (Inr (Inl entry), w1)"
            by (auto elim: io_bind_eq_InrD)
          show ?thesis
          proof (cases "10 < length resumeText")
            case True
            with t show ?thesis
              by (auto elim!: io_bind_eq_InrD simp: io_return_def)
          next
            case False
            with t show ?thesis
              by (auto simp: io_return_def)
          qed
        qed
      qed
    qed
  qed
qed

lemma stored_item_matched:
  assumes "stored_item env u jd jid m app w = (Inr (Matched e), w2)"
  shows "\<exists>sr w0. stored_resume_for env u m app w = (Inr (Inr sr), w0) \<and>
           stored_process env u jd jid sr w0 = (Inr (Matched e), w2)"
proof -
  from assms obtain found w0 where 1: "stored_resume_for env u m app w = (Inr found, w0)"
    and 2: "(case found of Inl entry \<Rightarrow> io_return entry
             | Inr sr \<Rightarrow> stored_process env u jd jid sr) w0 = (Inr (Matched e), w2)"
    unfolding stored_item_def by (erule io_bind_eq_InrD)
  show ?thesis
  proof (cases found)
    case (Inl entry)
    with 1 obtain name msg where "entry = Failed name msg"
      using stored_resume_for_entry by blast
    with Inl 2 show ?thesis
      by (simp add: io_return_def)
  next
    case (Inr sr)
    with 1 2 show ?thesis by simp
  qed
qed

lemma bulk_item_total:
  "\<exists>entry w'. bulk_item env u jd jid upload w = (Inr entry, w') \<and>
               entry_fileName entry = originalname upload"
proof (cases "io_bind (bulk_prepare env u jd jid upload) (bulk_finish u upload) w")
  case (Pair r w')
  show ?thesis
  proof (cases r)
    case (Inl err)
    with Pair show ?thesis
      by (simp add: bulk_item_cases entry_fileName_def)
  next
    case (Inr entry)
    with Pair obtain p w1 where "bulk_finish u upload p w1 = (Inr entry, w')"
      by (auto elim: io_bind_eq_InrD)
    then obtain pr mr doc where "entry = Matched (bulk_entry upload pr mr doc)"
      using bulk_finish_result by blast
    with Pair Inr show ?thesis
      by (simp add: bulk_item_cases entry_fileName_def bulk_entry_def)
  qed
qed

lemma io_catch_total:
  assumes "\<And>e w. \<exists>x w'. h e w = (Inr x, w')"
  shows "\<exists>x w'. io_catch m h w = (Inr x, w')"
proof (cases "m w")
  case (Pair r w1)
  then show ?thesis
    using assms by (cases r) (simp_all add: io_catch_def)
qed


lemma stored_resume_for_total:
  "\<exists>found w'. stored_resume_for env u m app w = (Inr found, w')"
  by (auto simp: stored_resume_for_def io_return_apply intro!: io_catch_total
      split: option.splits)

lemma stored_process_total:
  "\<exists>entry w'. stored_process env u jd jid sr w = (Inr entry, w')"
  unfolding stored_process_def by (rule io_catch_total) (simp add: io_return_apply)

lemma stored_item_total:
  "\<exists>entry w'. stored_item env u jd jid m app w = (Inr entry, w')"
proof -
  obtain found w0 where f: "stored_resume_for env u m app w = (Inr found, w0)"
    using stored_resume_for_total by blast
  show ?thesis
  proof (cases found)
    case (Inl entry)
    with f show ?thesis
      by (simp add: stored_item_def io_bind_Inr io_return_apply)
  next
    case (Inr sr)
    with f stored_process_total [of env u jd jid sr w0] show ?thesis
      by (simp add: stored_item_def io_bind_Inr)
  qed
qed


subsection \<open>The run of a batch\<close>

text \<open>
  A loop that appends the entry of every item never stops early when no item raises: it
  returns one entry for every item, in order, and \<open>ws\<close> lists the worlds between the
  items, from the world before the first item to the world after the last.
\<close>

lemma loop_chain:
  fixes loop :: "'a list \<Rightarrow> 'b list \<Rightarrow> 'b list io" and body :: "'a \<Rightarrow> 'b io"
  assumes nil: "\<And>acc. loop [] acc = io_return acc"
    and cons: "\<And>x xs acc. loop (x # xs) acc = io_bind (body x) (\<lambda>entry. loop xs (acc @ [entry]))"
    and total: "\<And>x w. \<exists>entry w1. body x w = (Inr entry, w1)"
  shows "\<exists>entries ws.
           loop xs acc w = (Inr (acc @ entries), ws ! length xs) \<and>
           length entries = length xs \<and> length ws = Suc (length xs) \<and> ws ! 0 = w \<and>
           (\<forall>i<length xs. body (xs ! i) (ws ! i) = (Inr (entries ! i), ws ! Suc i))"
proof (induction xs arbitrary: acc w)
  case Nil
  show ?case
    by (intro exI [of _ "[]"] exI [of _ "[w]"]) (simp add: nil io_return_apply)
next
  case (Cons x xs)
  obtain entry w1 where b: "body x w = (Inr entry, w1)"
    using total by blast
  obtain entries ws where
    l: "loop xs (acc @ [entry]) w1 = (Inr ((acc @ [entry]) @ entries), ws ! length xs)"
    and n: "length entries = length xs" "length ws = Suc (length xs)" "ws ! 0 = w1"
    and s: "\<forall>i<length xs. body (xs ! i) (ws ! i) = (Inr (entries ! i), ws ! Suc i)"
    using Cons.IH by blast
  have run: "loop (x # xs) acc w = (Inr (acc @ entry # entries), (w # ws) ! length (x # xs))"
    using b l by (simp add: cons io_bind_Inr)
  have steps: "\<forall>i<length (x # xs).
      body ((x # xs) ! i) ((w # ws) ! i) = (Inr ((entry # entries) ! i), (w # ws) ! Suc i)"
  proof (intro allI impI)
    fix i
    assume "i < length (x # xs)"
    then show "body ((x # xs) ! i) ((w # ws) ! i) = (Inr ((entry # entries) ! i), (w # ws) ! Suc i)"
      using b s n by (cases i) simp_all
  qed
  from run steps n show ?case
    by (intro exI [of _ "entry # entries"] exI [of _ "w # ws"]) simp
qed


lemma bulk_route_run:
  assumes "files \<noteq> []" and "length files \<le> 50"
    and "bulkSchema jobDescription jobDescriptionId = Some (jd, jid)"
  shows "\<exists>results ws.
           bulk_route env u files jobDescription jobDescriptionId w =
             (Inr (BatchOk (length files) results), ws ! length files) \<and>
           length results = length files \<and> length ws = Suc (length files) \<and> ws ! 0 = w \<and>
           (\<forall>i<length files.
              bulk_item env u jd jid (files ! i) (ws ! i) = (Inr (results ! i), ws ! Suc i))"
proof -
  have "\<exists>entries ws.
           bulk_loop env u jd jid files [] w = (Inr ([] @ entries), ws ! length files) \<and>
           length entries = length files \<and> length ws = Suc (length files) \<and> ws ! 0 = w \<and>
           (\<forall>i<length files.
              bulk_item env u jd jid (files ! i) (ws ! i) = (Inr (entries ! i), ws ! Suc i))"
  proof (rule loop_chain)
    show "\<exists>entry w1. bulk_item env u jd jid x w = (Inr entry, w1)" for x w
      using bulk_item_total [of env u jd jid x w] by blast
  qed simp_all
  then obtain entries ws where
    l: "bulk_loop env u jd jid files [] w = (Inr entries, ws ! length files)"
    and n: "length entries = length files" "length ws = Suc (length files)" "ws ! 0 = w"
    and s: "\<forall>i<length files.
              bulk_item env u jd jid (files ! i) (ws ! i) = (Inr (entries ! i), ws ! Suc i)"
    by auto
  have "post_bulk env u files jobDescription jobDescriptionId w =
          (Inr (BatchOk (length entries) entries), ws ! length files)"
    using assms l by (simp add: post_bulk_def io_catch_def io_bind_def io_return_apply)
  then have "bulk_route env u files jobDescription jobDescriptionId w =
          (Inr (BatchOk (length files) entries), ws ! length files)"
    using assms(2) n by (simp add: bulk_route_def upload_array_def io_bind_def io_return_apply)
  with n s show ?thesis
    by blast
qed


lemma stored_route_run:
  assumes "truthy jobDescription" and "truthy jobDescriptionId" and "idStrings \<noteq> []"
    and "cast_all env idStrings = Inr ids"
    and "Application_find_with_resume u ids w = (Inr apps, wa)" and "apps \<noteq> []"
    and "Resume_find_by_applications u ids wa = (Inr existing, wb)"
  shows "\<exists>results ws.
           post_use_stored_resumes env u jobDescription jobDescriptionId (Some idStrings) w =
             (Inr (BatchOk (length apps) results), ws ! length apps) \<and>
           length results = length apps \<and> length ws = Suc (length apps) \<and> ws ! 0 = wb \<and>
           (\<forall>i<length apps.
              stored_item env u (string_or jobDescription []) (string_or jobDescriptionId [])
                  (resume_map existing) (apps ! i) (ws ! i) =
                (Inr (results ! i), ws ! Suc i))"
proof -
  let ?jd = "string_or jobDescription []" and ?jid = "string_or jobDescriptionId []"
  have "\<exists>entries ws.
           stored_loop env u ?jd ?jid (resume_map existing) apps [] wb =
             (Inr ([] @ entries), ws ! length apps) \<and>
           length entries = length apps \<and> length ws = Suc (length apps) \<and> ws ! 0 = wb \<and>
           (\<forall>i<length apps.
              stored_item env u ?jd ?jid (resume_map existing) (apps ! i) (ws ! i) =
                (Inr (entries ! i), ws ! Suc i))"
  proof (rule loop_chain)
    show "\<exists>entry w1. stored_item env u ?jd ?jid (resume_map existing) x w = (Inr entry, w1)" for x w
      using stored_item_total by blast
  qed simp_all
  then obtain entries ws where
    l: "stored_loop env u ?jd ?jid (resume_map existing) apps [] wb =
          (Inr entries, ws ! length apps)"
    and n: "length entries = length apps" "length ws = Suc (length apps)" "ws ! 0 = wb"
    and s: "\<forall>i<length apps.
              stored_item env u ?jd ?jid (resume_map existing) (apps ! i) (ws ! i) =
                (Inr (entries ! i), ws ! Suc i)"
    by auto
  have "post_use_stored_resumes env u jobDescription jobDescriptionId (Some idStrings) w =
          (Inr (BatchOk (length entries) entries), ws ! length apps)"
    using assms l
    by (simp add: post_use_stored_resumes_def io_catch_def io_bind_def io_lift_def
        io_return_apply)
  with n s show ?thesis
    by (metis (no_types, lifting))
qed

subsection \<open>The application's status follows the resume's\<close>

lemma bulk_item_propagates:
  assumes "bulk_prepare env u jd jid upload w = (Inr (pr, mr, doc), w1)"
    and "bulk_item env u jd jid upload w = (Inr entry, w2)"
  shows "entry = Matched (bulk_entry upload pr mr doc) \<and>
         doc \<in> set (resumes w2) \<and> r_status doc = status mr \<and>
         (\<forall>a. r_applicationId doc = Some a \<longrightarrow> status_propagated a u (status mr) w1 w2)"
proof -
  from assms have e: "entry = Matched (bulk_entry upload pr mr doc)"
    and w: "w2 = snd (updateApplicationStatus (r_applicationId doc) u (status mr) w1)"
    by (simp_all add: bulk_item_after_prepare)
  from bulk_prepare_result [OF assms(1)] have "doc \<in> set (resumes w1)" "r_status doc = status mr"
    by simp_all
  with e w show ?thesis
    by (auto simp: update_application_resumes update_application_propagated)
qed

lemma stored_item_propagates:
  assumes "stored_resume_for env u m app w = (Inr (Inr sr), w0)"
    and "stored_prepare env jd jid sr w0 = (Inr (mr, doc), w1)"
    and "stored_item env u jd jid m app w = (Inr entry, w2)"
  shows "entry = Matched (stored_entry mr doc) \<and>
         doc \<in> set (resumes w2) \<and> r_status doc = status mr \<and>
         (\<forall>a. r_applicationId doc = Some a \<longrightarrow> status_propagated a u (status mr) w1 w2)"
proof -
  from assms(1) have "stored_item env u jd jid m app w = stored_process env u jd jid sr w0"
    by (simp add: stored_item_def io_bind_Inr)
  with assms(2,3) have e: "entry = Matched (stored_entry mr doc)"
    and w: "w2 = snd (updateApplicationStatus (r_applicationId doc) u (status mr) w1)"
    by (simp_all add: stored_process_after_prepare)
  from stored_prepare_result [OF assms(2)] have d: "doc = stored_updated_resume jid mr sr"
    and m: "doc \<in> set (resumes w1)"
    by blast+
  from d have "r_status doc = status mr"
    by (simp add: stored_updated_resume_def)
  with m e w show ?thesis
    by (auto simp: update_application_resumes update_application_propagated)
qed

lemma patch_propagates:
  assumes "status_of_string s = Some st" and "castObjectId env idString = Inr rid"
    and "Resume_findOneAndUpdate rid u st w = (Inr (Some doc), w1)"
  shows "\<exists>w2. patch_resume_status env u idString s w = (Inr (ResumeOk doc), w2) \<and>
           r_status doc = st \<and>
           (\<forall>a. r_applicationId doc = Some a \<longrightarrow> status_propagated a u st w1 w2)"
  using patch_after_update [OF assms] Resume_findOneAndUpdate_status [OF assms(3)]
  by (auto simp: update_application_propagated)


text \<open>
  C9 (as amended). Bulk upload and use-stored-resumes answer with one entry for every
  file or application, and the manual status change answers with the resume. Whenever
  one of them has stored a resume with the status it assigns (the status of the match
  in the first two, the requested status in the third), the entry or the response is the
  normal one whatever the update of the application does, the stored resume carries
  that status, and for a resume with an application id: a shortlisted resume leaves the
  application of that id and user (when there is one and the update does not reject) at
  interview, a rejected resume leaves it at rejected, a low-priority resume leaves every
  application unchanged, and an update that rejects leaves every application unchanged
  too (\<open>status_propagated\<close>, from the world in which the resume has been stored to the
  world after the item). Nothing is said of the status rejected with which
  use-stored-resumes creates a resume from an application's file before the match.
\<close>

theorem application_follows_resume_status:
  "(files \<noteq> [] \<and> length files \<le> 50 \<and>
    bulkSchema jobDescription jobDescriptionId = Some (jd, jid) \<longrightarrow>
      (\<exists>results ws.
         bulk_route env u files jobDescription jobDescriptionId w =
           (Inr (BatchOk (length files) results), ws ! length files) \<and>
         length results = length files \<and> length ws = Suc (length files) \<and> ws ! 0 = w \<and>
         (\<forall>i<length files.
            bulk_item env u jd jid (files ! i) (ws ! i) = (Inr (results ! i), ws ! Suc i) \<and>
            (\<forall>pr mr doc w1.
               bulk_prepare env u jd jid (files ! i) (ws ! i) = (Inr (pr, mr, doc), w1) \<longrightarrow>
               results ! i = Matched (bulk_entry (files ! i) pr mr doc) \<and>
               doc \<in> set (resumes (ws ! Suc i)) \<and> r_status doc = status mr \<and>
               (\<forall>a. r_applicationId doc = Some a \<longrightarrow>
                  status_propagated a u (status mr) w1 (ws ! Suc i)))))) \<and>
   (truthy storedDescription \<and> truthy storedDescriptionId \<and> idStrings \<noteq> [] \<and>
    cast_all env idStrings = Inr ids \<and>
    Application_find_with_resume u ids v = (Inr apps, va) \<and> apps \<noteq> [] \<and>
    Resume_find_by_applications u ids va = (Inr existing, vb) \<longrightarrow>
      (\<exists>results vs.
         post_use_stored_resumes env u storedDescription storedDescriptionId (Some idStrings) v =
           (Inr (BatchOk (length apps) results), vs ! length apps) \<and>
         length results = length apps \<and> length vs = Suc (length apps) \<and> vs ! 0 = vb \<and>
         (\<forall>i<length apps.
            stored_item env u (string_or storedDescription []) (string_or storedDescriptionId [])
                (resume_map existing) (apps ! i) (vs ! i) = (Inr (results ! i), vs ! Suc i) \<and>
            (\<forall>sr w0 mr doc w1.
               stored_resume_for env u (resume_map existing) (apps ! i) (vs ! i) =
                 (Inr (Inr sr), w0) \<and>
               stored_prepare env (string_or storedDescription []) (string_or storedDescriptionId [])
                 sr w0 = (Inr (mr, doc), w1) \<longrightarrow>
               results ! i = Matched (stored_entry mr doc) \<and>
               doc \<in> set (resumes (vs ! Suc i)) \<and> r_status doc = status mr \<and>
               (\<forall>a. r_applicationId doc = Some a \<longrightarrow>
                  status_propagated a u (status mr) w1 (vs ! Suc i)))))) \<and>
   (status_of_string s = Some st \<and> castObjectId env idString = Inr rid \<and>
    Resume_findOneAndUpdate rid u st wp = (Inr (Some updated), wp1) \<longrightarrow>
      (\<exists>w2. patch_resume_status env u idString s wp = (Inr (ResumeOk updated), w2) \<and>
            r_status updated = st \<and>
            (\<forall>a. r_applicationId updated = Some a \<longrightarrow> status_propagated a u st wp1 w2)))"
proof (intro conjI impI)
  assume "files \<noteq> [] \<and> length files \<le> 50 \<and>
    bulkSchema jobDescription jobDescriptionId = Some (jd, jid)"
  then obtain results ws where
    r: "bulk_route env u files jobDescription jobDescriptionId w =
       (Inr (BatchOk (length files) results), ws ! length files)"
    and n: "length results = length files" "length ws = Suc (length files)" "ws ! 0 = w"
    and s: "\<forall>i<length files.
              bulk_item env u jd jid (files ! i) (ws ! i) = (Inr (results ! i), ws ! Suc i)"
    using bulk_route_run [of files jobDescription jobDescriptionId jd jid env u w] by blast
  have per: "\<forall>i<length files.
            bulk_item env u jd jid (files ! i) (ws ! i) = (Inr (results ! i), ws ! Suc i) \<and>
            (\<forall>pr mr doc w1.
               bulk_prepare env u jd jid (files ! i) (ws ! i) = (Inr (pr, mr, doc), w1) \<longrightarrow>
               results ! i = Matched (bulk_entry (files ! i) pr mr doc) \<and>
               doc \<in> set (resumes (ws ! Suc i)) \<and> r_status doc = status mr \<and>
               (\<forall>a. r_applicationId doc = Some a \<longrightarrow>
                  status_propagated a u (status mr) w1 (ws ! Suc i)))"
  proof (intro allI impI)
    fix i
    assume "i < length files"
    with s have it:
      "bulk_item env u jd jid (files ! i) (ws ! i) = (Inr (results ! i), ws ! Suc i)"
      by simp
    have "\<forall>pr mr doc w1.
               bulk_prepare env u jd jid (files ! i) (ws ! i) = (Inr (pr, mr, doc), w1) \<longrightarrow>
               results ! i = Matched (bulk_entry (files ! i) pr mr doc) \<and>
               doc \<in> set (resumes (ws ! Suc i)) \<and> r_status doc = status mr \<and>
               (\<forall>a. r_applicationId doc = Some a \<longrightarrow>
                  status_propagated a u (status mr) w1 (ws ! Suc i))"
      by (intro allI impI) (rule bulk_item_propagates [OF _ it])
    with it show
      "bulk_item env u jd jid (files ! i) (ws ! i) = (Inr (results ! i), ws ! Suc i) \<and>
            (\<forall>pr mr doc w1.
               bulk_prepare env u jd jid (files ! i) (ws ! i) = (Inr (pr, mr, doc), w1) \<longrightarrow>
               results ! i = Matched (bulk_entry (files ! i) pr mr doc) \<and>
               doc \<in> set (resumes (ws ! Suc i)) \<and> r_status doc = status mr \<and>
               (\<forall>a. r_applicationId doc = Some a \<longrightarrow>
                  status_propagated a u (status mr) w1 (ws ! Suc i)))"
      by (intro conjI)
  qed
  from r n per show "\<exists>results ws.
         bulk_route env u files jobDescription jobDescriptionId w =
           (Inr (BatchOk (length files) results), ws ! length files) \<and>
         length results = length files \<and> length ws = Suc (length files) \<and> ws ! 0 = w \<and>
         (\<forall>i<length files.
            bulk_item env u jd jid (files ! i) (ws ! i) = (Inr (results ! i), ws ! Suc i) \<and>
            (\<forall>pr mr doc w1.
               bulk_prepare env u jd jid (files ! i) (ws ! i) = (Inr (pr, mr, doc), w1) \<longrightarrow>
               results ! i = Matched (bulk_entry (files ! i) pr mr doc) \<and>
               doc \<in> set (resumes (ws ! Suc i)) \<and> r_status doc = status mr \<and>
               (\<forall>a. r_applicationId doc = Some a \<longrightarrow>
                  status_propagated a u (status mr) w1 (ws ! Suc i))))"
    by (intro exI [of _ results] exI [of _ ws] conjI)
next
  let ?jd = "string_or storedDescription []" and ?jid = "string_or storedDescriptionId []"
  assume "truthy storedDescription \<and> truthy storedDescriptionId \<and> idStrings \<noteq> [] \<and>
    cast_all env idStrings = Inr ids \<and>
    Application_find_with_resume u ids v = (Inr apps, va) \<and> apps \<noteq> [] \<and>
    Resume_find_by_applications u ids va = (Inr existing, vb)"
  then obtain results vs where
    r: "post_use_stored_resumes env u storedDescription storedDescriptionId (Some idStrings) v =
           (Inr (BatchOk (length apps) results), vs ! length apps)"
    and n: "length results = length apps" "length vs = Suc (length apps)" "vs ! 0 = vb"
    and s: "\<forall>i<length apps.
              stored_item env u ?jd ?jid (resume_map existing) (apps ! i) (vs ! i) =
                (Inr (results ! i), vs ! Suc i)"
    using stored_route_run [of storedDescription storedDescriptionId idStrings env ids u v apps
        va existing vb]
    by blast
  have per: "\<forall>i<length apps.
            stored_item env u ?jd ?jid (resume_map existing) (apps ! i) (vs ! i) =
              (Inr (results ! i), vs ! Suc i) \<and>
            (\<forall>sr w0 mr doc w1.
               stored_resume_for env u (resume_map existing) (apps ! i) (vs ! i) =
                 (Inr (Inr sr), w0) \<and>
               stored_prepare env ?jd ?jid sr w0 = (Inr (mr, doc), w1) \<longrightarrow>
               results ! i = Matched (stored_entry mr doc) \<and>
               doc \<in> set (resumes (vs ! Suc i)) \<and> r_status doc = status mr \<and>
               (\<forall>a. r_applicationId doc = Some a \<longrightarrow>
                  status_propagated a u (status mr) w1 (vs ! Suc i)))"
  proof (intro allI impI)
    fix i
    assume "i < length apps"
    with s have it:
      "stored_item env u ?jd ?jid (resume_map existing) (apps ! i) (vs ! i) =
         (Inr (results ! i), vs ! Suc i)"
      by simp
    have "\<forall>sr w0 mr doc w1.
               stored_resume_for env u (resume_map existing) (apps ! i) (vs ! i) =
                 (Inr (Inr sr), w0) \<and>
               stored_prepare env ?jd ?jid sr w0 = (Inr (mr, doc), w1) \<longrightarrow>
               results ! i = Matched (stored_entry mr doc) \<and>
               doc \<in> set (resumes (vs ! Suc i)) \<and> r_status doc = status mr \<and>
               (\<forall>a. r_applicationId doc = Some a \<longrightarrow>
                  status_propagated a u (status mr) w1 (vs ! Suc i))"
      by (intro allI impI, elim conjE) (rule stored_item_propagates [OF _ _ it])
    with it show
      "stored_item env u ?jd ?jid (resume_map existing) (apps ! i) (vs ! i) =
              (Inr (results ! i), vs ! Suc i) \<and>
            (\<forall>sr w0 mr doc w1.
               stored_resume_for env u (resume_map existing) (apps ! i) (vs ! i) =
                 (Inr (Inr sr), w0) \<and>
               stored_prepare env ?jd ?jid sr w0 = (Inr (mr, doc), w1) \<longrightarrow>
               results ! i = Matched (stored_entry mr doc) \<and>
               doc \<in> set (resumes (vs ! Suc i)) \<and> r_status doc = status mr \<and>
               (\<forall>a. r_applicationId doc = Some a \<longrightarrow>
                  status_propagated a u (status mr) w1 (vs ! Suc i)))"
      by (intro conjI)
  qed
  from r n per show "\<exists>results vs.
         post_use_stored_resumes env u storedDescription storedDescriptionId (Some idStrings) v =
           (Inr (BatchOk (length apps) results), vs ! length apps) \<and>
         length results = length apps \<and> length vs = Suc (length apps) \<and> vs ! 0 = vb \<and>
         (\<forall>i<length apps.
            stored_item env u (string_or storedDescription []) (string_or storedDescriptionId [])
                (resume_map existing) (apps ! i) (vs ! i) = (Inr (results ! i), vs ! Suc i) \<and>
            (\<forall>sr w0 mr doc w1.
               stored_resume_for env u (resume_map existing) (apps ! i) (vs ! i) =
                 (Inr (Inr sr), w0) \<and>
               stored_prepare env (string_or storedDescription []) (string_or storedDescriptionId [])
                 sr w0 = (Inr (mr, doc), w1) \<longrightarrow>
               results ! i = Matched (stored_entry mr doc) \<and>
               doc \<in> set (resumes (vs ! Suc i)) \<and> r_status doc = status mr \<and>
               (\<forall>a. r_applicationId doc = Some a \<longrightarrow>
                  status_propagated a u (status mr) w1 (vs ! Suc i))))"
    by (intro exI [of _ results] exI [of _ vs] conjI)
next
  assume "status_of_string s = Some st \<and> castObjectId env idString = Inr rid \<and>
    Resume_findOneAndUpdate rid u st wp = (Inr (Some updated), wp1)"
  then show "\<exists>w2. patch_resume_status env u idString s wp = (Inr (ResumeOk updated), w2) \<and>
            r_status updated = st \<and>
            (\<forall>a. r_applicationId updated = Some a \<longrightarrow> status_propagated a u st wp1 w2)"
    using patch_propagates [of s st env idString rid u wp updated wp1] by blast
qed

theorem application_follows_resume_status_witness:
  "[text_upload] \<noteq> [] \<and> length [text_upload] \<le> 50 \<and>
   bulkSchema (Some ''python developer wanted'') (Some ''jd1'') =
     Some (''python developer wanted'', ''jd1'') \<and>
   fst (bulk_route (example_env Shortlisted) ''hr1'' [text_upload]
          (Some ''python developer wanted'') (Some ''jd1'') (example_world [])) =
     Inr (BatchOk 1
       [Matched (bulk_entry text_upload example_parsed (example_result Shortlisted)
          (bulk_updated_resume ''jd1'' ''Ann, python and aws developer'' example_parsed
             (example_result Shortlisted) example_resume))]) \<and>
   linked_application_status 1 ''hr1'' (applications (example_world [])) = Some Applied \<and>
   linked_application_status 1 ''hr1''
       (applications (snd (bulk_route (example_env Shortlisted) ''hr1'' [text_upload]
          (Some ''python developer wanted'') (Some ''jd1'') (example_world [])))) =
     Some Interview \<and>
   truthy (Some ''python developer wanted'') \<and> truthy (Some ''jd1'') \<and> [''1''] \<noteq> [] \<and>
   cast_all (example_env Rejected) [''1''] = Inr [1] \<and>
   Application_find_with_resume ''hr1'' [1] (example_world []) =
     (Inr [example_application], example_world []) \<and>
   [example_application] \<noteq> [] \<and>
   Resume_find_by_applications ''hr1'' [1] (example_world []) =
     (Inr [example_resume], example_world []) \<and>
   fst (post_use_stored_resumes (example_env Rejected) ''hr1''
          (Some ''python developer wanted'') (Some ''jd1'') (Some [''1'']) (example_world [])) =
     Inr (BatchOk 1
       [Matched (stored_entry (example_result Rejected)
          (stored_updated_resume ''jd1'' (example_result Rejected) example_resume))]) \<and>
   linked_application_status 1 ''hr1''
       (applications (snd (post_use_stored_resumes (example_env Rejected) ''hr1''
          (Some ''python developer wanted'') (Some ''jd1'') (Some [''1'']) (example_world [])))) =
     Some ApplicationRejected \<and>
   status_of_string ''shortlisted'' = Some Shortlisted \<and>
   castObjectId (example_env Rejected) ''7'' = Inr 7 \<and>
   Resume_findOneAndUpdate 7 ''hr1'' Shortlisted (example_world [None, Some (Exn None)]) =
     (Inr (Some (example_resume\<lparr>r_status := Shortlisted\<rparr>)),
      (example_world [Some (Exn None)])
        \<lparr>resumes := [example_resume\<lparr>r_status := Shortlisted\<rparr>]\<rparr>) \<and>
   fst (patch_resume_status (example_env Rejected) ''hr1'' ''7'' ''shortlisted''
          (example_world [None, Some (Exn None)])) =
     Inr (ResumeOk (example_resume\<lparr>r_status := Shortlisted\<rparr>)) \<and>
   applications (snd (patch_resume_status (example_env Rejected) ''hr1'' ''7'' ''shortlisted''
          (example_world [None, Some (Exn None)]))) = [example_application] \<and>
   status_of_string ''low_priority'' = Some LowPriority \<and>
   Resume_findOneAndUpdate 7 ''hr1'' LowPriority (example_world []) =
     (Inr (Some (example_resume\<lparr>r_status := LowPriority\<rparr>)),
      (example_world [])\<lparr>resumes := [example_resume\<lparr>r_status := LowPriority\<rparr>]\<rparr>) \<and>
   fst (patch_resume_status (example_env Rejected) ''hr1'' ''7'' ''low_priority''
          (example_world [])) =
     Inr (ResumeOk (example_resume\<lparr>r_status := LowPriority\<rparr>)) \<and>
   applications (snd (patch_resume_status (example_env Rejected) ''hr1'' ''7'' ''low_priority''
          (example_world []))) = [example_application]"
proof -
  let ?jd = "''python developer wanted''"
  let ?env = "example_env Shortlisted"
  let ?files = "[text_upload]"
  let ?doc = "bulk_updated_resume ''jd1'' ''Ann, python and aws developer'' example_parsed
             (example_result Shortlisted) example_resume"
  let ?w1 = "(example_world [])
        \<lparr>resumes := [?doc],
         calls := [CallParseResume ''Ann, python and aws developer'',
                   CallMatchResumeToJD [''python'', ''aws'', ''developer''] [''python'', ''aws'']
                     ''Ann, python and aws developer'' ''python developer wanted'']\<rparr>"
  let ?senv = "example_env Rejected"
  let ?apps = "[example_application]"
  let ?doc' = "stored_updated_resume ''jd1'' (example_result Rejected) example_resume"
  let ?ws1 = "(example_world [])
        \<lparr>resumes := [?doc'],
         calls := [CallMatchResumeToJD [''python'', ''aws'', ''developer''] [''python'', ''aws'']
                     ''Ann, python and aws developer'' ''python developer wanted'']\<rparr>"
  let ?doc'' = "example_resume\<lparr>r_status := Shortlisted\<rparr>"
  let ?wp = "example_world [None, Some (Exn None)]"
  let ?wp1 = "(example_world [Some (Exn None)])\<lparr>resumes := [?doc'']\<rparr>"
  note t1 = application_follows_resume_status [THEN conjunct1]
  note t2 = application_follows_resume_status [THEN conjunct2, THEN conjunct1]
  note t3 = application_follows_resume_status [THEN conjunct2, THEN conjunct2]
  have a: "?files \<noteq> []" "length ?files \<le> 50"
    by simp_all
  have b: "bulkSchema (Some ?jd) (Some ''jd1'') = Some (?jd, ''jd1'')"
    by code_simp
  have l: "0 < length ?files" "?files ! 0 = text_upload" "length ?files = Suc 0"
    by simp_all
  have b1: "bulk_prepare ?env ''hr1'' ?jd ''jd1'' text_upload (example_world [])
      = (Inr (example_parsed, example_result Shortlisted, ?doc), ?w1)"
    by code_simp
  have b2: "r_applicationId ?doc = Some 1" "status (example_result Shortlisted) = Shortlisted"
    "pending_fault ?w1 = None"
    "linked_application_status 1 ''hr1'' (applications ?w1) = Some Applied"
    "linked_application_status 1 ''hr1'' (applications (example_world [])) = Some Applied"
    by code_simp+
  from a b obtain results ws where
    r: "bulk_route ?env ''hr1'' ?files (Some ?jd) (Some ''jd1'') (example_world []) =
          (Inr (BatchOk (length ?files) results), ws ! length ?files)"
    and n: "length results = length ?files" "ws ! 0 = example_world []"
    and s: "\<forall>i<length ?files.
            bulk_item ?env ''hr1'' ?jd ''jd1'' (?files ! i) (ws ! i) =
              (Inr (results ! i), ws ! Suc i) \<and>
            (\<forall>pr mr doc w1.
               bulk_prepare ?env ''hr1'' ?jd ''jd1'' (?files ! i) (ws ! i) =
                 (Inr (pr, mr, doc), w1) \<longrightarrow>
               results ! i = Matched (bulk_entry (?files ! i) pr mr doc) \<and>
               doc \<in> set (resumes (ws ! Suc i)) \<and> r_status doc = status mr \<and>
               (\<forall>a. r_applicationId doc = Some a \<longrightarrow>
                  status_propagated a ''hr1'' (status mr) w1 (ws ! Suc i)))"
    using t1 [of ?files "Some ?jd" "Some ''jd1''" ?jd "''jd1''" ?env "''hr1''" "example_world []"]
    by blast
  note k = s [rule_format, OF l(1), THEN conjunct2, rule_format, unfolded l(2) n(2), OF b1]
  from k b2 have e0: "results ! 0 = Matched (bulk_entry text_upload example_parsed
        (example_result Shortlisted) ?doc)"
    and "status_propagated 1 ''hr1'' Shortlisted ?w1 (ws ! Suc 0)"
    by simp_all
  then have "linked_application_status 1 ''hr1'' (applications (ws ! Suc 0)) = Some Interview"
    unfolding status_propagated_def using b2 by simp
  moreover from r have "snd (bulk_route ?env ''hr1'' ?files (Some ?jd) (Some ''jd1'')
      (example_world [])) = ws ! Suc 0"
    by (simp add: l)
  moreover from n have "results = [results ! 0]"
    by (cases results) simp_all
  ultimately have bulk: "fst (bulk_route ?env ''hr1'' ?files (Some ?jd) (Some ''jd1'')
        (example_world [])) =
      Inr (BatchOk 1 [Matched (bulk_entry text_upload example_parsed
        (example_result Shortlisted) ?doc)])"
    "linked_application_status 1 ''hr1''
       (applications (snd (bulk_route ?env ''hr1'' ?files (Some ?jd) (Some ''jd1'')
          (example_world [])))) = Some Interview"
    using r e0 by simp_all
  have c: "truthy (Some ?jd)" "truthy (Some ''jd1'')" "[''1''] \<noteq> []"
    "cast_all ?senv [''1''] = Inr [1]"
    "Application_find_with_resume ''hr1'' [1] (example_world []) = (Inr ?apps, example_world [])"
    "?apps \<noteq> []"
    "Resume_find_by_applications ''hr1'' [1] (example_world []) =
       (Inr [example_resume], example_world [])"
    by code_simp+
  have so: "string_or (Some ?jd) [] = ?jd" "string_or (Some ''jd1'') [] = ''jd1''"
    by code_simp+
  have la: "0 < length ?apps" "?apps ! 0 = example_application" "length ?apps = Suc 0"
    by simp_all
  have s1: "stored_resume_for ?senv ''hr1'' (resume_map [example_resume]) example_application
        (example_world []) = (Inr (Inr example_resume), example_world []) \<and>
      stored_prepare ?senv ?jd ''jd1'' example_resume (example_world [])
      = (Inr (example_result Rejected, ?doc'), ?ws1)"
    by code_simp
  have s2: "r_applicationId ?doc' = Some 1" "status (example_result Rejected) = Rejected"
    "pending_fault ?ws1 = None"
    "linked_application_status 1 ''hr1'' (applications ?ws1) = Some Applied"
    by code_simp+
  from c obtain results' vs where
    r': "post_use_stored_resumes ?senv ''hr1'' (Some ?jd) (Some ''jd1'') (Some [''1''])
           (example_world []) = (Inr (BatchOk (length ?apps) results'), vs ! length ?apps)"
    and n': "length results' = length ?apps" "vs ! 0 = example_world []"
    and s': "\<forall>i<length ?apps.
            stored_item ?senv ''hr1'' (string_or (Some ?jd) []) (string_or (Some ''jd1'') [])
                (resume_map [example_resume]) (?apps ! i) (vs ! i) =
              (Inr (results' ! i), vs ! Suc i) \<and>
            (\<forall>sr w0 mr doc w1.
               stored_resume_for ?senv ''hr1'' (resume_map [example_resume]) (?apps ! i) (vs ! i) =
                 (Inr (Inr sr), w0) \<and>
               stored_prepare ?senv (string_or (Some ?jd) []) (string_or (Some ''jd1'') [])
                 sr w0 = (Inr (mr, doc), w1) \<longrightarrow>
               results' ! i = Matched (stored_entry mr doc) \<and>
               doc \<in> set (resumes (vs ! Suc i)) \<and> r_status doc = status mr \<and>
               (\<forall>a. r_applicationId doc = Some a \<longrightarrow>
                  status_propagated a ''hr1'' (status mr) w1 (vs ! Suc i)))"
    using t2 [of "Some ?jd" "Some ''jd1''" "[''1'']" ?senv "[1]" "''hr1''"
        "example_world []" ?apps "example_world []" "[example_resume]" "example_world []"]
    by blast
  note k' = s' [rule_format, OF la(1), THEN conjunct2, rule_format, unfolded la(2) n'(2) so,
      OF s1]
  from k' s2 have e0': "results' ! 0 = Matched (stored_entry (example_result Rejected) ?doc')"
    and "status_propagated 1 ''hr1'' Rejected ?ws1 (vs ! Suc 0)"
    by simp_all
  then have "linked_application_status 1 ''hr1'' (applications (vs ! Suc 0)) =
      Some ApplicationRejected"
    unfolding status_propagated_def using s2 by simp
  moreover from r' have "snd (post_use_stored_resumes ?senv ''hr1'' (Some ?jd) (Some ''jd1'')
      (Some [''1'']) (example_world [])) = vs ! Suc 0"
    by (simp add: la)
  moreover from n' have "results' = [results' ! 0]"
    by (cases results') simp_all
  ultimately have stored: "fst (post_use_stored_resumes ?senv ''hr1'' (Some ?jd) (Some ''jd1'')
        (Some [''1'']) (example_world [])) =
      Inr (BatchOk 1 [Matched (stored_entry (example_result Rejected) ?doc')])"
    "linked_application_status 1 ''hr1''
       (applications (snd (post_use_stored_resumes ?senv ''hr1'' (Some ?jd) (Some ''jd1'')
          (Some [''1'']) (example_world [])))) = Some ApplicationRejected"
    using r' e0' by simp_all
  have p1: "status_of_string ''shortlisted'' = Some Shortlisted"
    by code_simp
  have p2: "castObjectId ?senv ''7'' = Inr 7"
    by code_simp
  have p3: "Resume_findOneAndUpdate 7 ''hr1'' Shortlisted ?wp = (Inr (Some ?doc''), ?wp1)"
    by code_simp
  have p4: "r_applicationId ?doc'' = Some 1"
    by code_simp
  have p5: "pending_fault ?wp1 \<noteq> None"
    by code_simp
  have p6: "applications ?wp1 = [example_application]"
    by code_simp
  from p1 p2 p3 obtain w2'' where
    p7: "patch_resume_status ?senv ''hr1'' ''7'' ''shortlisted'' ?wp = (Inr (ResumeOk ?doc''), w2'')"
    and "\<forall>a. r_applicationId ?doc'' = Some a \<longrightarrow> status_propagated a ''hr1'' Shortlisted ?wp1 w2''"
    using t3 [of "''shortlisted''" Shortlisted ?senv "''7''" 7 "''hr1''" ?wp ?doc'' ?wp1]
    by blast
  with p4 have "status_propagated 1 ''hr1'' Shortlisted ?wp1 w2''"
    by blast
  then have "applications w2'' = [example_application]"
    unfolding status_propagated_def using p5 p6 by simp
  with p7 have patch:
    "fst (patch_resume_status ?senv ''hr1'' ''7'' ''shortlisted'' ?wp) = Inr (ResumeOk ?doc'')"
    "applications (snd (patch_resume_status ?senv ''hr1'' ''7'' ''shortlisted'' ?wp)) =
       [example_application]"
    by simp_all
  let ?docl = "example_resume\<lparr>r_status := LowPriority\<rparr>"
  let ?wl1 = "(example_world [])\<lparr>resumes := [?docl]\<rparr>"
  have q1: "status_of_string ''low_priority'' = Some LowPriority"
    by code_simp
  have q3: "Resume_findOneAndUpdate 7 ''hr1'' LowPriority (example_world []) =
      (Inr (Some ?docl), ?wl1)"
    by code_simp
  have q4: "r_applicationId ?docl = Some 1"
    by code_simp
  have q6: "applications ?wl1 = [example_application]"
    by code_simp
  from q1 p2 q3 obtain w2l where
    q7: "patch_resume_status ?senv ''hr1'' ''7'' ''low_priority'' (example_world []) =
           (Inr (ResumeOk ?docl), w2l)"
    and "\<forall>a. r_applicationId ?docl = Some a \<longrightarrow> status_propagated a ''hr1'' LowPriority ?wl1 w2l"
    using t3 [of "''low_priority''" LowPriority ?senv "''7''" 7 "''hr1''" "example_world []"
        ?docl ?wl1]
    by blast
  with q4 have "status_propagated 1 ''hr1'' LowPriority ?wl1 w2l"
    by blast
  then have "applications w2l = [example_application]"
    unfolding status_propagated_def using q6 by simp
  with q7 have low:
    "fst (patch_resume_status ?senv ''hr1'' ''7'' ''low_priority'' (example_world [])) =
       Inr (ResumeOk ?docl)"
    "applications (snd (patch_resume_status ?senv ''hr1'' ''7'' ''low_priority''
       (example_world []))) = [example_application]"
    by simp_all
  from a b bulk b2(5) c stored p1 p2 p3 patch q1 q3 low show ?thesis
    by (intro conjI)
qed


text \<open>
  The specification's sentence covers every resume that ends with status rejected. Here
  use-stored-resumes creates the resume of application 2 from its file, with the status
  rejected of lines 156-171; the matcher raises; and the run ends with that resume
  rejected and linked to application 2 while the application is still at applied.
\<close>

theorem placeholder_status_not_propagated:
  "fst (post_use_stored_resumes (example_env Shortlisted) ''hr1''
          (Some ''python developer wanted'') (Some ''jd1'') (Some [''2'']) (stored_world [])) =
     Inr (BatchOk 1 [Failed ''cy.txt'' ''Failed to process resume'']) \<and>
   map r_id (resumes (stored_world [])) = [7] \<and>
   map r_id (resumes (snd (post_use_stored_resumes (example_env Shortlisted) ''hr1''
          (Some ''python developer wanted'') (Some ''jd1'') (Some [''2'']) (stored_world [])))) =
     [7, 8] \<and>
   map r_applicationId (resumes (snd (post_use_stored_resumes (example_env Shortlisted) ''hr1''
          (Some ''python developer wanted'') (Some ''jd1'') (Some [''2'']) (stored_world [])))) =
     [Some 1, Some 2] \<and>
   map r_status (resumes (snd (post_use_stored_resumes (example_env Shortlisted) ''hr1''
          (Some ''python developer wanted'') (Some ''jd1'') (Some [''2'']) (stored_world [])))) =
     [Rejected, Rejected] \<and>
   map a_id (applications (snd (post_use_stored_resumes (example_env Shortlisted) ''hr1''
          (Some ''python developer wanted'') (Some ''jd1'') (Some [''2'']) (stored_world [])))) =
     [1, 2] \<and>
   map a_status (applications (snd (post_use_stored_resumes (example_env Shortlisted) ''hr1''
          (Some ''python developer wanted'') (Some ''jd1'') (Some [''2'']) (stored_world [])))) =
     [Applied, Applied]"
  by code_simp

subsection \<open>Keywords of the result entries\<close>

lemma bulk_item_keywords:
  assumes "bulk_item env u jd jid upload w = (Inr (Matched e), w2)"
  shows "\<exists>pr mr doc.
         env_parseResume env (readFileAsText env upload) = Inr pr \<and>
         env_matchResumeToJD env (keywords' pr) (skills pr) (readFileAsText env upload) jd = Inr mr \<and>
         e_matchedKeywords e = take 10 (matchedKeywords mr) \<and>
         e_missingKeywords e = take 10 (missingKeywords mr) \<and>
         doc \<in> set (resumes w2) \<and> r_id doc = e_id e \<and>
         r_matchedKeywords doc = matchedKeywords mr \<and>
         r_missingKeywords doc = missingKeywords mr"
proof -
  from assms obtain pr mr doc w1 where
    1: "bulk_prepare env u jd jid upload w = (Inr (pr, mr, doc), w1)"
    and e: "e = bulk_entry upload pr mr doc" and r: "resumes w2 = resumes w1"
    using bulk_item_matched by blast
  from bulk_prepare_result [OF 1] e r
  have c: "env_parseResume env (readFileAsText env upload) = Inr pr \<and>
         env_matchResumeToJD env (keywords' pr) (skills pr) (readFileAsText env upload) jd = Inr mr \<and>
         e_matchedKeywords e = take 10 (matchedKeywords mr) \<and>
         e_missingKeywords e = take 10 (missingKeywords mr) \<and>
         doc \<in> set (resumes w2) \<and> r_id doc = e_id e \<and>
         r_matchedKeywords doc = matchedKeywords mr \<and>
         r_missingKeywords doc = missingKeywords mr"
    by (simp add: bulk_entry_def)
  show ?thesis
    by (rule exI [of _ pr], rule exI [of _ mr], rule exI [of _ doc]) (rule c)
qed

lemma stored_item_keywords:
  assumes "stored_item env u jd jid m app ws = (Inr (Matched e), ws2)"
  shows "\<exists>sr w0 mr doc.
         stored_resume_for env u m app ws = (Inr (Inr sr), w0) \<and>
         env_matchResumeToJD env (r_keywords sr) (r_skills sr) (r_originalText sr) jd = Inr mr \<and>
         e_matchedKeywords e = take 10 (matchedKeywords mr) \<and>
         e_missingKeywords e = take 10 (missingKeywords mr) \<and>
         doc \<in> set (resumes ws2) \<and> r_id doc = e_id e \<and>
         r_matchedKeywords doc = matchedKeywords mr \<and>
         r_missingKeywords doc = missingKeywords mr"
proof -
  from assms obtain sr w0 where f: "stored_resume_for env u m app ws = (Inr (Inr sr), w0)"
    and "stored_process env u jd jid sr w0 = (Inr (Matched e), ws2)"
    using stored_item_matched by blast
  then obtain mr doc w1 where 1: "stored_prepare env jd jid sr w0 = (Inr (mr, doc), w1)"
    and e: "e = stored_entry mr doc" and r: "resumes ws2 = resumes w1"
    using stored_process_matched by blast
  from stored_prepare_result [OF 1] e r f
  have c: "stored_resume_for env u m app ws = (Inr (Inr sr), w0) \<and>
         env_matchResumeToJD env (r_keywords sr) (r_skills sr) (r_originalText sr) jd = Inr mr \<and>
         e_matchedKeywords e = take 10 (matchedKeywords mr) \<and>
         e_missingKeywords e = take 10 (missingKeywords mr) \<and>
         doc \<in> set (resumes ws2) \<and> r_id doc = e_id e \<and>
         r_matchedKeywords doc = matchedKeywords mr \<and>
         r_missingKeywords doc = missingKeywords mr"
    by (auto simp: stored_entry_def stored_updated_resume_def)
  show ?thesis
    by (rule exI [of _ sr], rule exI [of _ w0], rule exI [of _ mr], rule exI [of _ doc]) (rule c)
qed

lemma post_match_keywords:
  assumes a: "post_match env (Some rt) (Some jd') wm = (Inr (SingleOk p), wm2)"
  shows "\<exists>pr mr.
         env_parseResume env rt = Inr pr \<and>
         env_matchResumeToJD env (keywords' pr) (skills pr) rt jd' = Inr mr \<and>
         p_matchedKeywords p = matchedKeywords mr \<and>
         p_missingKeywords p = missingKeywords mr"
proof -
  from a have len: "payloadSchema (Some rt) (Some jd') = Some (rt, jd')"
    by (auto simp: post_match_def payloadSchema_def io_return_def split: if_splits)
  with a obtain pr wa where 1: "call_parseResume env rt wm = (Inr pr, wa)"
    and 2: "io_bind (call_matchResumeToJD env (keywords' pr) (skills pr) rt jd') (\<lambda>mr.
          io_return (SingleOk
            \<lparr> score = matchScore mr,
              p_matchPercentage = matchPercentage mr,
              decision = status mr,
              threshold = 80,
              p_matchedKeywords = matchedKeywords mr,
              p_missingKeywords = missingKeywords mr,
              parsedResume = pr \<rparr>)) wa = (Inr (SingleOk p), wm2)"
    by (auto simp: post_match_def elim: io_bind_eq_InrD)
  from 2 obtain mr wb where 3: "call_matchResumeToJD env (keywords' pr) (skills pr) rt jd' wa = (Inr mr, wb)"
    and 4: "io_return (SingleOk
            \<lparr> score = matchScore mr,
              p_matchPercentage = matchPercentage mr,
              decision = status mr,
              threshold = 80,
              p_matchedKeywords = matchedKeywords mr,
              p_missingKeywords = missingKeywords mr,
              parsedResume = pr \<rparr>) wb = (Inr (SingleOk p), wm2)"
    by (erule io_bind_eq_InrD)
  from 4 have "p_matchedKeywords p = matchedKeywords mr" "p_missingKeywords p = missingKeywords mr"
    by (auto simp: io_return_def)
  with call_parseResume_result [OF 1] call_matchResumeToJD_result [OF 3]
  show ?thesis
    by blast
qed


text \<open>
  C10. Every entry of a match in the results that bulk upload or use-stored-resumes
  returns holds the first ten matched and the first ten missing keywords of the
  matcher's result for that file or stored resume, in their order, and the resume stored
  under the entry's id holds both lists in full in the world right after the item; the
  single-match response holds both lists in full.
\<close>

theorem result_keywords_truncated:
  "(files \<noteq> [] \<and> length files \<le> 50 \<and>
    bulkSchema jobDescription jobDescriptionId = Some (jd, jid) \<longrightarrow>
      (\<exists>results ws.
         bulk_route env u files jobDescription jobDescriptionId w =
           (Inr (BatchOk (length files) results), ws ! length files) \<and>
         length results = length files \<and> length ws = Suc (length files) \<and> ws ! 0 = w \<and>
         (\<forall>i<length files.
            bulk_item env u jd jid (files ! i) (ws ! i) = (Inr (results ! i), ws ! Suc i) \<and>
            (\<forall>e. results ! i = Matched e \<longrightarrow>
               (\<exists>pr mr doc.
                  env_parseResume env (readFileAsText env (files ! i)) = Inr pr \<and>
                  env_matchResumeToJD env (keywords' pr) (skills pr)
                    (readFileAsText env (files ! i)) jd = Inr mr \<and>
                  e_matchedKeywords e = take 10 (matchedKeywords mr) \<and>
                  e_missingKeywords e = take 10 (missingKeywords mr) \<and>
                  doc \<in> set (resumes (ws ! Suc i)) \<and> r_id doc = e_id e \<and>
                  r_matchedKeywords doc = matchedKeywords mr \<and>
                  r_missingKeywords doc = missingKeywords mr))))) \<and>
   (truthy storedDescription \<and> truthy storedDescriptionId \<and> idStrings \<noteq> [] \<and>
    cast_all env idStrings = Inr ids \<and>
    Application_find_with_resume u ids v = (Inr apps, va) \<and> apps \<noteq> [] \<and>
    Resume_find_by_applications u ids va = (Inr existing, vb) \<longrightarrow>
      (\<exists>results vs.
         post_use_stored_resumes env u storedDescription storedDescriptionId (Some idStrings) v =
           (Inr (BatchOk (length apps) results), vs ! length apps) \<and>
         length results = length apps \<and> length vs = Suc (length apps) \<and> vs ! 0 = vb \<and>
         (\<forall>i<length apps.
            stored_item env u (string_or storedDescription []) (string_or storedDescriptionId [])
                (resume_map existing) (apps ! i) (vs ! i) = (Inr (results ! i), vs ! Suc i) \<and>
            (\<forall>e. results ! i = Matched e \<longrightarrow>
               (\<exists>sr w0 mr doc.
                  stored_resume_for env u (resume_map existing) (apps ! i) (vs ! i) =
                    (Inr (Inr sr), w0) \<and>
                  env_matchResumeToJD env (r_keywords sr) (r_skills sr) (r_originalText sr)
                    (string_or storedDescription []) = Inr mr \<and>
                  e_matchedKeywords e = take 10 (matchedKeywords mr) \<and>
                  e_missingKeywords e = take 10 (missingKeywords mr) \<and>
                  doc \<in> set (resumes (vs ! Suc i)) \<and> r_id doc = e_id e \<and>
                  r_matchedKeywords doc = matchedKeywords mr \<and>
                  r_missingKeywords doc = missingKeywords mr))))) \<and>
   (post_match env (Some rt) (Some jd') wm = (Inr (SingleOk p), wm2) \<longrightarrow>
      (\<exists>pr mr.
         env_parseResume env rt = Inr pr \<and>
         env_matchResumeToJD env (keywords' pr) (skills pr) rt jd' = Inr mr \<and>
         p_matchedKeywords p = matchedKeywords mr \<and>
         p_missingKeywords p = missingKeywords mr))"
proof (intro conjI impI)
  assume h: "files \<noteq> [] \<and> length files \<le> 50 \<and>
    bulkSchema jobDescription jobDescriptionId = Some (jd, jid)"
  then obtain results ws where
    r: "bulk_route env u files jobDescription jobDescriptionId w =
       (Inr (BatchOk (length files) results), ws ! length files)"
    and n: "length results = length files" "length ws = Suc (length files)" "ws ! 0 = w"
    and s: "\<forall>i<length files.
              bulk_item env u jd jid (files ! i) (ws ! i) = (Inr (results ! i), ws ! Suc i)"
    using bulk_route_run [of files jobDescription jobDescriptionId jd jid env u w] by blast
  have "\<exists>pr mr doc.
          env_parseResume env (readFileAsText env (files ! i)) = Inr pr \<and>
          env_matchResumeToJD env (keywords' pr) (skills pr)
            (readFileAsText env (files ! i)) jd = Inr mr \<and>
          e_matchedKeywords e = take 10 (matchedKeywords mr) \<and>
          e_missingKeywords e = take 10 (missingKeywords mr) \<and>
          doc \<in> set (resumes (ws ! Suc i)) \<and> r_id doc = e_id e \<and>
          r_matchedKeywords doc = matchedKeywords mr \<and>
          r_missingKeywords doc = missingKeywords mr"
    if "i < length files" and "results ! i = Matched e" for i e
    using s that by (intro bulk_item_keywords [of env u jd jid "files ! i" "ws ! i"]) simp
  with r n s show "\<exists>results ws.
         bulk_route env u files jobDescription jobDescriptionId w =
           (Inr (BatchOk (length files) results), ws ! length files) \<and>
         length results = length files \<and> length ws = Suc (length files) \<and> ws ! 0 = w \<and>
         (\<forall>i<length files.
            bulk_item env u jd jid (files ! i) (ws ! i) = (Inr (results ! i), ws ! Suc i) \<and>
            (\<forall>e. results ! i = Matched e \<longrightarrow>
               (\<exists>pr mr doc.
                  env_parseResume env (readFileAsText env (files ! i)) = Inr pr \<and>
                  env_matchResumeToJD env (keywords' pr) (skills pr)
                    (readFileAsText env (files ! i)) jd = Inr mr \<and>
                  e_matchedKeywords e = take 10 (matchedKeywords mr) \<and>
                  e_missingKeywords e = take 10 (missingKeywords mr) \<and>
                  doc \<in> set (resumes (ws ! Suc i)) \<and> r_id doc = e_id e \<and>
                  r_matchedKeywords doc = matchedKeywords mr \<and>
                  r_missingKeywords doc = missingKeywords mr)))"
    by (intro exI [of _ results] exI [of _ ws]) simp
next
  let ?jd = "string_or storedDescription []" and ?jid = "string_or storedDescriptionId []"
  assume h: "truthy storedDescription \<and> truthy storedDescriptionId \<and> idStrings \<noteq> [] \<and>
    cast_all env idStrings = Inr ids \<and>
    Application_find_with_resume u ids v = (Inr apps, va) \<and> apps \<noteq> [] \<and>
    Resume_find_by_applications u ids va = (Inr existing, vb)"
  then obtain results vs where
    r: "post_use_stored_resumes env u storedDescription storedDescriptionId (Some idStrings) v =
           (Inr (BatchOk (length apps) results), vs ! length apps)"
    and n: "length results = length apps" "length vs = Suc (length apps)" "vs ! 0 = vb"
    and s: "\<forall>i<length apps.
              stored_item env u ?jd ?jid (resume_map existing) (apps ! i) (vs ! i) =
                (Inr (results ! i), vs ! Suc i)"
    using stored_route_run [of storedDescription storedDescriptionId idStrings env ids u v apps
        va existing vb]
    by blast
  have "\<exists>sr w0 mr doc.
          stored_resume_for env u (resume_map existing) (apps ! i) (vs ! i) =
            (Inr (Inr sr), w0) \<and>
          env_matchResumeToJD env (r_keywords sr) (r_skills sr) (r_originalText sr) ?jd = Inr mr \<and>
          e_matchedKeywords e = take 10 (matchedKeywords mr) \<and>
          e_missingKeywords e = take 10 (missingKeywords mr) \<and>
          doc \<in> set (resumes (vs ! Suc i)) \<and> r_id doc = e_id e \<and>
          r_matchedKeywords doc = matchedKeywords mr \<and>
          r_missingKeywords doc = missingKeywords mr"
    if "i < length apps" and "results ! i = Matched e" for i e
    using s that
    by (intro stored_item_keywords [of env u ?jd ?jid "resume_map existing" "apps ! i" "vs ! i"])
      simp
  with r n s show "\<exists>results vs.
         post_use_stored_resumes env u storedDescription storedDescriptionId (Some idStrings) v =
           (Inr (BatchOk (length apps) results), vs ! length apps) \<and>
         length results = length apps \<and> length vs = Suc (length apps) \<and> vs ! 0 = vb \<and>
         (\<forall>i<length apps.
            stored_item env u (string_or storedDescription []) (string_or storedDescriptionId [])
                (resume_map existing) (apps ! i) (vs ! i) = (Inr (results ! i), vs ! Suc i) \<and>
            (\<forall>e. results ! i = Matched e \<longrightarrow>
               (\<exists>sr w0 mr doc.
                  stored_resume_for env u (resume_map existing) (apps ! i) (vs ! i) =
                    (Inr (Inr sr), w0) \<and>
                  env_matchResumeToJD env (r_keywords sr) (r_skills sr) (r_originalText sr)
                    (string_or storedDescription []) = Inr mr \<and>
                  e_matchedKeywords e = take 10 (matchedKeywords mr) \<and>
                  e_missingKeywords e = take 10 (missingKeywords mr) \<and>
                  doc \<in> set (resumes (vs ! Suc i)) \<and> r_id doc = e_id e \<and>
                  r_matchedKeywords doc = matchedKeywords mr \<and>
                  r_missingKeywords doc = missingKeywords mr)))"
    by (intro exI [of _ results] exI [of _ vs]) simp
next
  assume "post_match env (Some rt) (Some jd') wm = (Inr (SingleOk p), wm2)"
  then show "\<exists>pr mr.
         env_parseResume env rt = Inr pr \<and>
         env_matchResumeToJD env (keywords' pr) (skills pr) rt jd' = Inr mr \<and>
         p_matchedKeywords p = matchedKeywords mr \<and>
         p_missingKeywords p = missingKeywords mr"
    by (rule post_match_keywords)
qed

theorem result_keywords_truncated_witness:
  "[text_upload, unparsed_upload] \<noteq> [] \<and> length [text_upload, unparsed_upload] \<le> 50 \<and>
   bulkSchema (Some ''python developer wanted'') (Some ''jd1'') =
     Some (''python developer wanted'', ''jd1'') \<and>
   fst (bulk_route (example_env Shortlisted) ''hr1'' [text_upload, unparsed_upload]
          (Some ''python developer wanted'') (Some ''jd1'') (example_world [])) =
     Inr (BatchOk 2
       [Matched (bulk_entry text_upload example_parsed (example_result Shortlisted)
          (bulk_updated_resume ''jd1'' ''Ann, python and aws developer'' example_parsed
             (example_result Shortlisted) example_resume)),
        Failed ''eve.txt'' ''Cannot parse resume'']) \<and>
   length (matchedKeywords (example_result Shortlisted)) = 12 \<and>
   length (missingKeywords (example_result Shortlisted)) = 11 \<and>
   (\<exists>pr mr doc.
      env_parseResume (example_env Shortlisted)
        (readFileAsText (example_env Shortlisted) text_upload) = Inr pr \<and>
      env_matchResumeToJD (example_env Shortlisted) (keywords' pr) (skills pr)
        (readFileAsText (example_env Shortlisted) text_upload) ''python developer wanted'' = Inr mr \<and>
      e_matchedKeywords (bulk_entry text_upload example_parsed (example_result Shortlisted)
             (bulk_updated_resume ''jd1'' ''Ann, python and aws developer'' example_parsed
                (example_result Shortlisted) example_resume)) = take 10 (matchedKeywords mr) \<and>
      e_missingKeywords (bulk_entry text_upload example_parsed (example_result Shortlisted)
             (bulk_updated_resume ''jd1'' ''Ann, python and aws developer'' example_parsed
                (example_result Shortlisted) example_resume)) = take 10 (missingKeywords mr) \<and>
      doc \<in> set [bulk_updated_resume ''jd1'' ''Ann, python and aws developer'' example_parsed
             (example_result Shortlisted) example_resume] \<and>
      r_id doc = 7 \<and>
      r_matchedKeywords doc = matchedKeywords mr \<and>
      r_missingKeywords doc = missingKeywords mr) \<and>
   truthy (Some ''python developer wanted'') \<and> truthy (Some ''jd1'') \<and> [''1'', ''2''] \<noteq> [] \<and>
   cast_all (example_env LowPriority) [''1'', ''2''] = Inr [1, 2] \<and>
   Application_find_with_resume ''hr1'' [1, 2] (stored_world []) =
     (Inr [example_application, cy_application], stored_world []) \<and>
   [example_application, cy_application] \<noteq> [] \<and>
   Resume_find_by_applications ''hr1'' [1, 2] (stored_world []) =
     (Inr [example_resume], stored_world []) \<and>
   fst (post_use_stored_resumes (example_env LowPriority) ''hr1''
          (Some ''python developer wanted'') (Some ''jd1'') (Some [''1'', ''2''])
          (stored_world [])) =
     Inr (BatchOk 2
       [Matched (stored_entry (example_result LowPriority)
          (stored_updated_resume ''jd1'' (example_result LowPriority) example_resume)),
        Failed ''cy.txt'' ''Failed to process resume'']) \<and>
   (\<exists>sr w0 mr doc.
      stored_resume_for (example_env LowPriority) ''hr1'' (resume_map [example_resume])
        example_application (stored_world []) = (Inr (Inr sr), w0) \<and>
      env_matchResumeToJD (example_env LowPriority) (r_keywords sr) (r_skills sr)
        (r_originalText sr) ''python developer wanted'' = Inr mr \<and>
      e_matchedKeywords (stored_entry (example_result LowPriority)
             (stored_updated_resume ''jd1'' (example_result LowPriority) example_resume)) =
        take 10 (matchedKeywords mr) \<and>
      e_missingKeywords (stored_entry (example_result LowPriority)
             (stored_updated_resume ''jd1'' (example_result LowPriority) example_resume)) =
        take 10 (missingKeywords mr) \<and>
      doc \<in> set [stored_updated_resume ''jd1'' (example_result LowPriority) example_resume] \<and>
      r_id doc = 7 \<and>
      r_matchedKeywords doc = matchedKeywords mr \<and>
      r_missingKeywords doc = missingKeywords mr) \<and>
   post_match (example_env Rejected) (Some ''Ann, python and aws developer'')
       (Some ''python developer wanted'') (example_world []) =
     (Inr (SingleOk
        \<lparr> score = 1 / 5, p_matchPercentage = 20, decision = Rejected, threshold = 80,
          p_matchedKeywords = matchedKeywords (example_result Rejected),
          p_missingKeywords = missingKeywords (example_result Rejected),
          parsedResume = example_parsed \<rparr>),
      (example_world [])
        \<lparr>calls := [CallParseResume ''Ann, python and aws developer'',
                   CallMatchResumeToJD [''python'', ''aws'', ''developer''] [''python'', ''aws'']
                     ''Ann, python and aws developer'' ''python developer wanted'']\<rparr>) \<and>
   (\<exists>pr mr.
      env_parseResume (example_env Rejected) ''Ann, python and aws developer'' = Inr pr \<and>
      env_matchResumeToJD (example_env Rejected) (keywords' pr) (skills pr)
        ''Ann, python and aws developer'' ''python developer wanted'' = Inr mr \<and>
      matchedKeywords (example_result Rejected) = matchedKeywords mr \<and>
      missingKeywords (example_result Rejected) = missingKeywords mr)"
proof -
  let ?jd = "''python developer wanted''"
  let ?env = "example_env Shortlisted"
  let ?files = "[text_upload, unparsed_upload]"
  let ?doc = "bulk_updated_resume ''jd1'' ''Ann, python and aws developer'' example_parsed
                (example_result Shortlisted) example_resume"
  let ?e = "bulk_entry text_upload example_parsed (example_result Shortlisted) ?doc"
  let ?senv = "example_env LowPriority"
  let ?apps = "[example_application, cy_application]"
  let ?doc' = "stored_updated_resume ''jd1'' (example_result LowPriority) example_resume"
  let ?e' = "stored_entry (example_result LowPriority) ?doc'"
  let ?p = "\<lparr> score = 1 / 5, p_matchPercentage = 20, decision = Rejected, threshold = 80,
          p_matchedKeywords = matchedKeywords (example_result Rejected),
          p_missingKeywords = missingKeywords (example_result Rejected),
          parsedResume = example_parsed \<rparr>"
  let ?wm2 = "(example_world [])
        \<lparr>calls := [CallParseResume ''Ann, python and aws developer'',
                   CallMatchResumeToJD [''python'', ''aws'', ''developer''] [''python'', ''aws'']
                     ''Ann, python and aws developer'' ''python developer wanted'']\<rparr>"
  note t1 = result_keywords_truncated [THEN conjunct1]
  note t2 = result_keywords_truncated [THEN conjunct2, THEN conjunct1]
  note t3 = result_keywords_truncated [THEN conjunct2, THEN conjunct2]
  have a: "?files \<noteq> []" "length ?files \<le> 50"
    by simp_all
  have b: "bulkSchema (Some ?jd) (Some ''jd1'') = Some (?jd, ''jd1'')"
    by code_simp
  have v1: "fst (bulk_route ?env ''hr1'' ?files (Some ?jd) (Some ''jd1'') (example_world [])) =
     Inr (BatchOk 2 [Matched ?e, Failed ''eve.txt'' ''Cannot parse resume''])"
    by code_simp
  have n: "length (matchedKeywords (example_result Shortlisted)) = 12"
    "length (missingKeywords (example_result Shortlisted)) = 11"
    by code_simp+
  have b0: "fst (bulk_item ?env ''hr1'' ?jd ''jd1'' text_upload (example_world [])) =
      Inr (Matched ?e)"
    and b1: "resumes (snd (bulk_item ?env ''hr1'' ?jd ''jd1'' text_upload (example_world []))) =
      [?doc]"
    and b2: "e_id ?e = 7"
    by code_simp+
  from a b obtain results ws where
    "ws ! 0 = example_world []"
    and "\<forall>i<length ?files.
            bulk_item ?env ''hr1'' ?jd ''jd1'' (?files ! i) (ws ! i) =
              (Inr (results ! i), ws ! Suc i) \<and>
            (\<forall>e. results ! i = Matched e \<longrightarrow>
               (\<exists>pr mr doc.
                  env_parseResume ?env (readFileAsText ?env (?files ! i)) = Inr pr \<and>
                  env_matchResumeToJD ?env (keywords' pr) (skills pr)
                    (readFileAsText ?env (?files ! i)) ?jd = Inr mr \<and>
                  e_matchedKeywords e = take 10 (matchedKeywords mr) \<and>
                  e_missingKeywords e = take 10 (missingKeywords mr) \<and>
                  doc \<in> set (resumes (ws ! Suc i)) \<and> r_id doc = e_id e \<and>
                  r_matchedKeywords doc = matchedKeywords mr \<and>
                  r_missingKeywords doc = missingKeywords mr))"
    using t1 [of ?files "Some ?jd" "Some ''jd1''" ?jd "''jd1''" ?env "''hr1''" "example_world []"]
    by blast
  then have i0: "bulk_item ?env ''hr1'' ?jd ''jd1'' text_upload (example_world []) =
              (Inr (results ! 0), ws ! Suc 0)"
    and k0: "\<forall>e. results ! 0 = Matched e \<longrightarrow>
               (\<exists>pr mr doc.
                  env_parseResume ?env (readFileAsText ?env text_upload) = Inr pr \<and>
                  env_matchResumeToJD ?env (keywords' pr) (skills pr)
                    (readFileAsText ?env text_upload) ?jd = Inr mr \<and>
                  e_matchedKeywords e = take 10 (matchedKeywords mr) \<and>
                  e_missingKeywords e = take 10 (missingKeywords mr) \<and>
                  doc \<in> set (resumes (ws ! Suc 0)) \<and> r_id doc = e_id e \<and>
                  r_matchedKeywords doc = matchedKeywords mr \<and>
                  r_missingKeywords doc = missingKeywords mr)"
    by force+
  from i0 b0 b1 have "results ! 0 = Matched ?e" and "resumes (ws ! Suc 0) = [?doc]"
    by simp_all
  with k0 b2 have c1: "\<exists>pr mr doc.
      env_parseResume ?env (readFileAsText ?env text_upload) = Inr pr \<and>
      env_matchResumeToJD ?env (keywords' pr) (skills pr)
        (readFileAsText ?env text_upload) ?jd = Inr mr \<and>
      e_matchedKeywords ?e = take 10 (matchedKeywords mr) \<and>
      e_missingKeywords ?e = take 10 (missingKeywords mr) \<and>
      doc \<in> set [?doc] \<and> r_id doc = 7 \<and>
      r_matchedKeywords doc = matchedKeywords mr \<and>
      r_missingKeywords doc = missingKeywords mr"
    by simp
  have s: "truthy (Some ?jd)" "truthy (Some ''jd1'')" "[''1'', ''2''] \<noteq> []"
    "cast_all ?senv [''1'', ''2''] = Inr [1, 2]"
    "Application_find_with_resume ''hr1'' [1, 2] (stored_world []) = (Inr ?apps, stored_world [])"
    "?apps \<noteq> []"
    "Resume_find_by_applications ''hr1'' [1, 2] (stored_world []) =
       (Inr [example_resume], stored_world [])"
    by code_simp+
  have so: "string_or (Some ?jd) [] = ?jd" "string_or (Some ''jd1'') [] = ''jd1''"
    by code_simp+
  have v2: "fst (post_use_stored_resumes ?senv ''hr1'' (Some ?jd) (Some ''jd1'')
          (Some [''1'', ''2'']) (stored_world [])) =
     Inr (BatchOk 2 [Matched ?e', Failed ''cy.txt'' ''Failed to process resume''])"
    by code_simp
  have s0: "fst (stored_item ?senv ''hr1'' ?jd ''jd1'' (resume_map [example_resume])
               example_application (stored_world [])) = Inr (Matched ?e')"
    and s1: "resumes (snd (stored_item ?senv ''hr1'' ?jd ''jd1'' (resume_map [example_resume])
               example_application (stored_world []))) = [?doc']"
    and s2: "e_id ?e' = 7"
    by code_simp+
  from s obtain results' vs where
    "vs ! 0 = stored_world []"
    and "\<forall>i<length ?apps.
            stored_item ?senv ''hr1'' (string_or (Some ?jd) []) (string_or (Some ''jd1'') [])
                (resume_map [example_resume]) (?apps ! i) (vs ! i) =
              (Inr (results' ! i), vs ! Suc i) \<and>
            (\<forall>e. results' ! i = Matched e \<longrightarrow>
               (\<exists>sr w0 mr doc.
                  stored_resume_for ?senv ''hr1'' (resume_map [example_resume]) (?apps ! i) (vs ! i) =
                    (Inr (Inr sr), w0) \<and>
                  env_matchResumeToJD ?senv (r_keywords sr) (r_skills sr) (r_originalText sr)
                    (string_or (Some ?jd) []) = Inr mr \<and>
                  e_matchedKeywords e = take 10 (matchedKeywords mr) \<and>
                  e_missingKeywords e = take 10 (missingKeywords mr) \<and>
                  doc \<in> set (resumes (vs ! Suc i)) \<and> r_id doc = e_id e \<and>
                  r_matchedKeywords doc = matchedKeywords mr \<and>
                  r_missingKeywords doc = missingKeywords mr))"
    using t2 [of "Some ?jd" "Some ''jd1''" "[''1'', ''2'']" ?senv "[1, 2]" "''hr1''"
        "stored_world []" ?apps "stored_world []" "[example_resume]" "stored_world []"]
    by blast
  then have j0: "stored_item ?senv ''hr1'' ?jd ''jd1'' (resume_map [example_resume])
               example_application (stored_world []) = (Inr (results' ! 0), vs ! Suc 0)"
    and m0: "\<forall>e. results' ! 0 = Matched e \<longrightarrow>
               (\<exists>sr w0 mr doc.
                  stored_resume_for ?senv ''hr1'' (resume_map [example_resume])
                    example_application (stored_world []) = (Inr (Inr sr), w0) \<and>
                  env_matchResumeToJD ?senv (r_keywords sr) (r_skills sr) (r_originalText sr)
                    ?jd = Inr mr \<and>
                  e_matchedKeywords e = take 10 (matchedKeywords mr) \<and>
                  e_missingKeywords e = take 10 (missingKeywords mr) \<and>
                  doc \<in> set (resumes (vs ! Suc 0)) \<and> r_id doc = e_id e \<and>
                  r_matchedKeywords doc = matchedKeywords mr \<and>
                  r_missingKeywords doc = missingKeywords mr)"
    unfolding so by force+
  from j0 s0 s1 have "results' ! 0 = Matched ?e'" and "resumes (vs ! Suc 0) = [?doc']"
    by simp_all
  with m0 s2 have c2: "\<exists>sr w0 mr doc.
      stored_resume_for ?senv ''hr1'' (resume_map [example_resume])
        example_application (stored_world []) = (Inr (Inr sr), w0) \<and>
      env_matchResumeToJD ?senv (r_keywords sr) (r_skills sr) (r_originalText sr) ?jd = Inr mr \<and>
      e_matchedKeywords ?e' = take 10 (matchedKeywords mr) \<and>
      e_missingKeywords ?e' = take 10 (missingKeywords mr) \<and>
      doc \<in> set [?doc'] \<and> r_id doc = 7 \<and>
      r_matchedKeywords doc = matchedKeywords mr \<and>
      r_missingKeywords doc = missingKeywords mr"
    by simp
  have h3: "post_match (example_env Rejected) (Some ''Ann, python and aws developer'')
       (Some ?jd) (example_world []) = (Inr (SingleOk ?p), ?wm2)"
    by code_simp
  have i3: "p_matchedKeywords ?p = matchedKeywords (example_result Rejected)"
    "p_missingKeywords ?p = missingKeywords (example_result Rejected)"
    by simp_all
  have c3: "\<exists>pr mr.
      env_parseResume (example_env Rejected) ''Ann, python and aws developer'' = Inr pr \<and>
      env_matchResumeToJD (example_env Rejected) (keywords' pr) (skills pr)
        ''Ann, python and aws developer'' ?jd = Inr mr \<and>
      matchedKeywords (example_result Rejected) = matchedKeywords mr \<and>
      missingKeywords (example_result Rejected) = missingKeywords mr"
    using t3 [of "example_env Rejected" "''Ann, python and aws developer''" ?jd "example_world []"
        ?p ?wm2] h3
    unfolding i3 by (rule mp)
  from a b v1 n c1 s v2 c2 h3 c3 show ?thesis
    by (intro conjI)
qed

subsection \<open>One entry for every uploaded file\<close>





















text \<open>
  An upload of more than fifty files does not reach the handler: the upload middleware
  raises, and no file is reported.
\<close>

lemma upload_of_51_files_is_refused:
  "bulk_route (example_env Shortlisted) ''hr1'' (replicate 51 text_upload)
      (Some ''python developer wanted'') (Some ''jd1'') (example_world []) =
     (Inl (Exn (Some ''Unexpected field'')), example_world [])"
  by code_simp

text \<open>
  The text of a PDF whose extraction raises: \<open>readFileAsText\<close> catches the exception and
  decodes the buffer as ASCII, and the upload is matched on that text.
\<close>

lemma unreadable_pdf_is_matched:
  "isPDF (example_env LowPriority) (buffer broken_pdf_upload) \<and>
   extractTextFromPDF (example_env LowPriority) (buffer broken_pdf_upload) =
     Inl (Exn (Some ''Invalid PDF structure'')) \<and>
   readFileAsText (example_env LowPriority) broken_pdf_upload = ''%PDF-1.7 broken'' \<and>
   fst (bulk_route (example_env LowPriority) ''hr1'' [broken_pdf_upload]
          (Some ''python developer wanted'') (Some ''jd1'') (example_world [])) =
     Inr (BatchOk 1
       [Matched
         \<lparr>e_id = 8, e_fileName = ''bob.pdf'', e_matchPercentage = 0,
            e_status = Rejected, e_email = [], e_skills = [],
            e_matchedKeywords = [],
            e_missingKeywords = [''python'', ''developer'', ''wanted''],
            e_applicationId = None\<rparr>])"
  by code_simp

end
